theory Spec2Isabelle
  imports Complex_Main "HOL-Library.Log_Nat"
begin

section \<open>JavaScript values used by the hooks\<close>

text \<open>
  A JavaScript string is a sequence of UTF-16 code units; a code unit is modelled as a
  natural number. \<open>str\<close> turns an ASCII literal into such a sequence.
\<close>

type_synonym jsstring = "nat list"

definition str :: "string \<Rightarrow> jsstring" where
  "str s = map of_char s"

text \<open>
  \<open>!s\<close> for a value of type \<open>string | null\<close>: null and the empty string are falsy.
\<close>

fun falsy :: "jsstring option \<Rightarrow> bool" where
  "falsy None = True"
| "falsy (Some s) = (s = [])"

text \<open>\<open>s || null\<close> and \<open>s || ""\<close> for a value of type \<open>string | null | undefined\<close>.\<close>

fun orNull :: "jsstring option \<Rightarrow> jsstring option" where
  "orNull None = None"
| "orNull (Some s) = (if s = [] then None else Some s)"

fun orEmpty :: "jsstring option \<Rightarrow> jsstring" where
  "orEmpty None = []"
| "orEmpty (Some s) = s"

text \<open>\<open>Array.prototype.some\<close> and \<open>Array.prototype.find\<close>.\<close>

fun some :: "('a \<Rightarrow> bool) \<Rightarrow> 'a list \<Rightarrow> bool" where
  "some p [] = False"
| "some p (x # xs) = (if p x then True else some p xs)"

fun find_first :: "('a \<Rightarrow> bool) \<Rightarrow> 'a list \<Rightarrow> 'a option" where
  "find_first p [] = None"
| "find_first p (x # xs) = (if p x then Some x else find_first p xs)"

text \<open>
  \<open>String.prototype.startsWith\<close>, \<open>includes\<close> (here \<open>includes_str\<close>) and \<open>endsWith\<close>, on any sequence.
\<close>

fun startsWith :: "'a list \<Rightarrow> 'a list \<Rightarrow> bool" where
  "startsWith s [] = True"
| "startsWith [] (p # ps) = False"
| "startsWith (c # cs) (p # ps) = (if c = p then startsWith cs ps else False)"

fun includes_str :: "'a list \<Rightarrow> 'a list \<Rightarrow> bool" where
  "includes_str [] p = (p = [])"
| "includes_str (c # cs) p = (if startsWith (c # cs) p then True else includes_str cs p)"

definition endsWith :: "'a list \<Rightarrow> 'a list \<Rightarrow> bool" where
  "endsWith s p = startsWith (rev s) (rev p)"

section \<open>Data model (types of \<open>@shared/api\<close>)\<close>

text \<open>
  Modelled from the spec: the declarations of \<open>Warehouse\<close>, \<open>City\<close>, \<open>RegionCity\<close> and
  \<open>TariffType\<close> live in \<open>@shared/api\<close>, which is not part of the sources at hand. The
  spec gives a service point as \<open>{ id, displayName, cityName }\<close> with a free-text city
  name, a city as \<open>{ id, displayName, optional geocoordinates }\<close>, and the tariff type as
  a closed enumeration of six values. The field \<open>id\<close> of the source is \<open>wh_id\<close> and
  \<open>city_id\<close> here, \<open>name\<close> is \<open>wh_name\<close> and \<open>city_name\<close>.
\<close>

record Warehouse =
  wh_id :: int
  wh_name :: jsstring
  city :: jsstring

record City =
  city_id :: int
  city_name :: jsstring
  center_latitude :: "rat option"
  center_longitude :: "rat option"

text \<open>
  Modelled from the spec: \<open>RegionCity\<close> is declared in \<open>@shared/api\<close> too; the spec
  describes the region-scoped city as a city with optional per-language name variants.
  The languages are those the hooks read (\<open>names.ru\<close>, \<open>names.en\<close>, \<open>names.uz\<close>).
\<close>

datatype language = ru | en | uz

record names =
  names_ru :: "jsstring option"
  names_en :: "jsstring option"
  names_uz :: "jsstring option"

record RegionCity =
  shipox_id :: int
  names :: names

datatype TariffType =
  OFFICE_OFFICE | OFFICE_DOOR | DOOR_OFFICE | OFFICE_POSTAMAT | DOOR_POSTAMAT | DOOR_DOOR

text \<open>The string that a value of the union type \<open>TariffType\<close> is at run time.\<close>

fun tariffName :: "TariffType \<Rightarrow> string" where
  "tariffName OFFICE_OFFICE = ''OFFICE_OFFICE''"
| "tariffName OFFICE_DOOR = ''OFFICE_DOOR''"
| "tariffName DOOR_OFFICE = ''DOOR_OFFICE''"
| "tariffName OFFICE_POSTAMAT = ''OFFICE_POSTAMAT''"
| "tariffName DOOR_POSTAMAT = ''DOOR_POSTAMAT''"
| "tariffName DOOR_DOOR = ''DOOR_DOOR''"

text \<open>
  The messages come from \<open>useI18n\<close> (not part of the sources at hand): \<open>t.key\<close> is a
  translated text and \<open>formatMessage(t.key, params)\<close> fills its placeholders. A message
  is kept as the expression that produces it, so two messages are equal when the same
  key is looked up with the same parameters. A parameter is a string or \<open>undefined\<close>
  (\<open>None\<close>).
\<close>

datatype msgKey =
  noWarehouses | noOriginWarehouse | noDestinationWarehouse
  | noOriginWarehouseAndDestinationLocker | noDestinationLocker
  | fillAllFields | correctWeight | calculationError

datatype message =
  Empty
  | T msgKey
  | FormatMessage msgKey "(string \<times> jsstring option) list"

text \<open>The result \<open>{ show, message }\<close> of the warning check; \<open>show\<close> is \<open>show_warning\<close>.\<close>

record warning =
  show_warning :: bool
  message :: message

section \<open>\<open>client/hooks/useWarehouseCheck.ts\<close>: the exact-match hook\<close>

text \<open>
  The state of the hook (\<open>useState\<close>): the two fetched lists, the loading flag and the
  error text.
\<close>

record hook =
  warehouses :: "Warehouse list"
  lockers :: "Warehouse list"
  loading :: bool
  error :: "jsstring option"

text \<open>
  \<open>getCityNameById\<close>: \<open>!id\<close> holds for null and for 0; \<open>found?.name || null\<close> is null when
  no city has the id and when the name found is empty.
\<close>

definition getCityNameById :: "City list \<Rightarrow> int option \<Rightarrow> jsstring option" where
  "getCityNameById cities i =
     (case i of
        None \<Rightarrow> None
      | Some n \<Rightarrow>
          if n = 0 then None
          else orNull (map_option city_name (find_first (\<lambda>c. city_id c = n) cities)))"

text \<open>\<open>originCity?.id || null\<close>.\<close>

definition idOrNull :: "City option \<Rightarrow> int option" where
  "idOrNull c =
     (case c of None \<Rightarrow> None | Some x \<Rightarrow> if city_id x = 0 then None else Some (city_id x))"

definition hasWarehouse :: "hook \<Rightarrow> jsstring option \<Rightarrow> bool" where
  "hasWarehouse h cityName =
     (if falsy cityName then False
      else some (\<lambda>w. Some (city w) = cityName) (warehouses h))"

definition hasLocker :: "hook \<Rightarrow> jsstring option \<Rightarrow> bool" where
  "hasLocker h cityName =
     (if falsy cityName then False
      else some (\<lambda>l. Some (city l) = cityName) (lockers h))"

text \<open>
  The chain of \<open>if\<close> statements that \<open>shouldShowWarehouseWarning\<close> runs once the three
  availability flags and the two names are known. The source nests the tests of
  \<open>OFFICE_OFFICE\<close> and of \<open>OFFICE_POSTAMAT\<close> under a test of the tariff type and falls
  through to the next statement when none of them returns; here each test carries the
  tariff type with it.
\<close>

definition warningFor ::
  "TariffType \<Rightarrow> bool \<Rightarrow> bool \<Rightarrow> bool \<Rightarrow> jsstring option \<Rightarrow> jsstring option \<Rightarrow> warning"
where
  "warningFor tariffType originHasWarehouse destinationHasWarehouse destinationHasLocker
      originCityName destinationCityName =
     (if tariffType = OFFICE_OFFICE \<and> \<not> originHasWarehouse \<and> \<not> destinationHasWarehouse then
        \<lparr>show_warning = True, message = T noWarehouses\<rparr>
      else if tariffType = OFFICE_OFFICE \<and> \<not> originHasWarehouse then
        \<lparr>show_warning = True,
         message = FormatMessage noOriginWarehouse [(''city'', Some (orEmpty originCityName))]\<rparr>
      else if tariffType = OFFICE_OFFICE \<and> \<not> destinationHasWarehouse then
        \<lparr>show_warning = True,
         message = FormatMessage noDestinationWarehouse [(''city'', Some (orEmpty destinationCityName))]\<rparr>
      else if tariffType = OFFICE_DOOR \<and> \<not> originHasWarehouse then
        \<lparr>show_warning = True,
         message = FormatMessage noOriginWarehouse [(''city'', Some (orEmpty originCityName))]\<rparr>
      else if tariffType = OFFICE_POSTAMAT \<and> \<not> originHasWarehouse \<and> \<not> destinationHasLocker then
        \<lparr>show_warning = True,
         message = FormatMessage noOriginWarehouseAndDestinationLocker
           [(''originCity'', Some (orEmpty originCityName)),
            (''destinationCity'', Some (orEmpty destinationCityName))]\<rparr>
      else if tariffType = OFFICE_POSTAMAT \<and> \<not> originHasWarehouse then
        \<lparr>show_warning = True,
         message = FormatMessage noOriginWarehouse [(''city'', Some (orEmpty originCityName))]\<rparr>
      else if tariffType = OFFICE_POSTAMAT \<and> \<not> destinationHasLocker then
        \<lparr>show_warning = True,
         message = FormatMessage noDestinationLocker [(''city'', Some (orEmpty destinationCityName))]\<rparr>
      else if tariffType = DOOR_OFFICE \<and> \<not> destinationHasWarehouse then
        \<lparr>show_warning = True,
         message = FormatMessage noDestinationWarehouse [(''city'', Some (orEmpty destinationCityName))]\<rparr>
      else if tariffType = DOOR_POSTAMAT \<and> \<not> destinationHasLocker then
        \<lparr>show_warning = True,
         message = FormatMessage noDestinationLocker [(''city'', Some (orEmpty destinationCityName))]\<rparr>
      else \<lparr>show_warning = False, message = Empty\<rparr>)"

text \<open>
  The \<open>switch\<close> of \<open>shouldDisableCalculation\<close>. Its \<open>default\<close> branch is not reached by
  a value of type \<open>TariffType\<close>.
\<close>

fun disableFor :: "TariffType \<Rightarrow> bool \<Rightarrow> bool \<Rightarrow> bool \<Rightarrow> bool" where
  "disableFor OFFICE_OFFICE oW dW dL = (\<not> oW \<or> \<not> dW)"
| "disableFor OFFICE_DOOR oW dW dL = (\<not> oW)"
| "disableFor DOOR_OFFICE oW dW dL = (\<not> dW)"
| "disableFor OFFICE_POSTAMAT oW dW dL = (\<not> oW \<or> \<not> dL)"
| "disableFor DOOR_POSTAMAT oW dW dL = (\<not> dL)"
| "disableFor DOOR_DOOR oW dW dL = False"

definition shouldShowWarehouseWarning ::
  "City list \<Rightarrow> hook \<Rightarrow> City option \<Rightarrow> City option \<Rightarrow> TariffType option \<Rightarrow> warning"
where
  "shouldShowWarehouseWarning cities h originCity destinationCity tariffType =
     (case tariffType of
        None \<Rightarrow> \<lparr>show_warning = False, message = Empty\<rparr>
      | Some tt \<Rightarrow>
          if loading h then \<lparr>show_warning = False, message = Empty\<rparr>
          else
            let originCityName = getCityNameById cities (idOrNull originCity);
                destinationCityName = getCityNameById cities (idOrNull destinationCity)
            in warningFor tt
                 (hasWarehouse h originCityName)
                 (hasWarehouse h destinationCityName)
                 (hasLocker h destinationCityName)
                 originCityName destinationCityName)"

definition shouldDisableCalculation ::
  "City list \<Rightarrow> hook \<Rightarrow> City option \<Rightarrow> City option \<Rightarrow> TariffType option \<Rightarrow> bool"
where
  "shouldDisableCalculation cities h originCity destinationCity tariffType =
     (case (originCity, destinationCity, tariffType) of
        (Some oc, Some dc, Some tt) \<Rightarrow>
          if loading h then True
          else
            let originCityName = getCityNameById cities (Some (city_id oc));
                destinationCityName = getCityNameById cities (Some (city_id dc))
            in disableFor tt
                 (hasWarehouse h originCityName)
                 (hasWarehouse h destinationCityName)
                 (hasLocker h destinationCityName)
      | _ \<Rightarrow> True)"

section \<open>\<open>unnamed/part_000\<close>: the hook on city names\<close>

text \<open>
  This version of \<open>useWarehouseCheck\<close> takes no list of cities; its \<open>hasWarehouse\<close> and
  \<open>hasLocker\<close> are the two functions above, character for character. The name of a city
  is \<open>originCity?.name || null\<close>.
\<close>

definition nameOrNull :: "City option \<Rightarrow> jsstring option" where
  "nameOrNull c = orNull (map_option city_name c)"

definition shouldDisableCalculation_p0 ::
  "hook \<Rightarrow> City option \<Rightarrow> City option \<Rightarrow> TariffType option \<Rightarrow> bool"
where
  "shouldDisableCalculation_p0 h originCity destinationCity tariffType =
     (case (originCity, destinationCity, tariffType) of
        (Some oc, Some dc, Some tt) \<Rightarrow>
          if loading h then True
          else
            let originCityName = nameOrNull originCity;
                destinationCityName = nameOrNull destinationCity
            in disableFor tt
                 (hasWarehouse h originCityName)
                 (hasWarehouse h destinationCityName)
                 (hasLocker h destinationCityName)
      | _ \<Rightarrow> True)"

section \<open>Loading the two lists: \<open>fetchData\<close>\<close>

text \<open>
  What \<open>await fetch(url)\<close> and \<open>await response.json()\<close> can give. A fetch is rejected
  (it throws) or resolves to a response with its \<open>ok\<close> flag; \<open>json()\<close> throws on a body
  that is not JSON (\<open>None\<close>). Of the parsed body \<open>data\<close> the hook reads
  \<open>data.data?.list || []\<close>: the JSON value \<open>null\<close> makes \<open>data.data\<close> throw, a missing
  \<open>data.data\<close> or a missing or empty \<open>list\<close> gives \<open>[]\<close>.
\<close>

datatype json_body =
  BodyNull
  | BodyNoData
  | BodyNoList
  | BodyList "Warehouse list"

datatype response = Response (ok: bool) (json: "json_body option")

datatype fetch_result = Rejected | Resolved response

text \<open>\<open>data.data?.list || []\<close>; \<open>None\<close> is the TypeError on \<open>null.data\<close>.\<close>

fun listOrEmpty :: "json_body \<Rightarrow> Warehouse list option" where
  "listOrEmpty BodyNull = None"
| "listOrEmpty BodyNoData = Some []"
| "listOrEmpty BodyNoList = Some []"
| "listOrEmpty (BodyList ws) = Some ws"

text \<open>
  The body of the \<open>try\<close> block after both fetches have resolved: each list is set under
  its own \<open>ok\<close> test; \<open>None\<close> is an exception, and carries the state reached when it is
  thrown (a list already set stays set).
\<close>

definition readLockers :: "hook \<Rightarrow> response \<Rightarrow> hook + hook" where
  "readLockers h lockersResponse =
     (if ok lockersResponse then
        (case json lockersResponse of
           None \<Rightarrow> Inl h
         | Some data \<Rightarrow>
             (case listOrEmpty data of
                None \<Rightarrow> Inl h
              | Some ls \<Rightarrow> Inr (h\<lparr>lockers := ls\<rparr>)))
      else Inr h)"

definition readWarehouses :: "hook \<Rightarrow> response \<Rightarrow> response \<Rightarrow> hook + hook" where
  "readWarehouses h warehousesResponse lockersResponse =
     (if ok warehousesResponse then
        (case json warehousesResponse of
           None \<Rightarrow> Inl h
         | Some data \<Rightarrow>
             (case listOrEmpty data of
                None \<Rightarrow> Inl h
              | Some ws \<Rightarrow> readLockers (h\<lparr>warehouses := ws\<rparr>) lockersResponse))
      else readLockers h lockersResponse)"

text \<open>
  \<open>fetchData\<close> with the text its \<open>catch\<close> block stores: \<open>setLoading(true)\<close>, the two
  fetches awaited one after the other inside one \<open>try\<close>, \<open>setError\<close> in the \<open>catch\<close>,
  \<open>setLoading(false)\<close> in the \<open>finally\<close>. The second argument is the outcome of the
  warehouses request, the third the outcome the lockers request has when it is issued.
\<close>

definition fetchDataWith ::
  "jsstring \<Rightarrow> hook \<Rightarrow> fetch_result \<Rightarrow> fetch_result \<Rightarrow> hook"
where
  "fetchDataWith errorText h warehousesFetch lockersFetch =
     (let h1 = h\<lparr>loading := True\<rparr>;
          tried =
            (case warehousesFetch of
               Rejected \<Rightarrow> Inl h1
             | Resolved warehousesResponse \<Rightarrow>
                 (case lockersFetch of
                    Rejected \<Rightarrow> Inl h1
                  | Resolved lockersResponse \<Rightarrow>
                      readWarehouses h1 warehousesResponse lockersResponse))
      in case tried of
           Inl h2 \<Rightarrow> h2\<lparr>error := Some errorText, loading := False\<rparr>
         | Inr h2 \<Rightarrow> h2\<lparr>loading := False\<rparr>)"

text \<open>The state \<open>useState\<close> starts from.\<close>

definition initialHook :: hook where
  "initialHook = \<lparr>warehouses = [], lockers = [], loading = False, error = None\<rparr>"

text \<open>
  \<open>client/hooks/useWarehouseCheck.ts\<close> stores a Russian text (given by its code units),
  \<open>unnamed/part_000\<close> an English one; the two functions differ in nothing else but
  their logging.
\<close>

definition fetchData :: "hook \<Rightarrow> fetch_result \<Rightarrow> fetch_result \<Rightarrow> hook" where
  "fetchData =
     fetchDataWith
       [1054, 1096, 1080, 1073, 1082, 1072, 32, 1087, 1088, 1080, 32, 1079, 1072, 1075,
        1088, 1091, 1079, 1082, 1077, 32, 1076, 1072, 1085, 1085, 1099, 1093]"

definition fetchData_p0 :: "hook \<Rightarrow> fetch_result \<Rightarrow> fetch_result \<Rightarrow> hook" where
  "fetchData_p0 = fetchDataWith (str ''Failed to load data'')"

section \<open>Strings: \<open>trim\<close> and \<open>toLowerCase\<close>\<close>

text \<open>
  The white space of \<open>String.prototype.trim\<close> and of \<open>\s\<close> in a regular expression:
  the WhiteSpace and LineTerminator code points of ECMAScript.
\<close>

definition isWhiteSpace :: "nat \<Rightarrow> bool" where
  "isWhiteSpace c =
     (c \<in> set [9, 10, 11, 12, 13, 32, 160, 5760, 8232, 8233, 8239, 8287, 12288, 65279]
      \<or> (8192 \<le> c \<and> c \<le> 8202))"

definition trim :: "jsstring \<Rightarrow> jsstring" where
  "trim s = rev (dropWhile isWhiteSpace (rev (dropWhile isWhiteSpace s)))"

text \<open>
  \<open>String.prototype.toLowerCase\<close> maps a string by the Unicode case mapping of the
  JavaScript engine: a table of the engine, not of the repository, which can also
  change the length of a string. The functions of the hooks that call it take it as
  their first argument, \<open>toLowerCase\<close>; what is proved of them holds for every function
  from strings to strings in its place.
\<close>

section \<open>\<open>unnamed/part_001\<close>, second version: the trimmed, case-insensitive match\<close>

definition hasWarehouse_trim ::
  "(jsstring \<Rightarrow> jsstring) \<Rightarrow> hook \<Rightarrow> jsstring option \<Rightarrow> bool"
where
  "hasWarehouse_trim toLowerCase h cityName =
     (case cityName of
        None \<Rightarrow> False
      | Some n \<Rightarrow>
          if n = [] \<or> length (warehouses h) = 0 then False
          else
            let cleanCityName = toLowerCase (trim n)
            in some (\<lambda>warehouse. toLowerCase (trim (city warehouse)) = cleanCityName)
                 (warehouses h))"

definition hasLocker_trim ::
  "(jsstring \<Rightarrow> jsstring) \<Rightarrow> hook \<Rightarrow> jsstring option \<Rightarrow> bool"
where
  "hasLocker_trim toLowerCase h cityName =
     (case cityName of
        None \<Rightarrow> False
      | Some n \<Rightarrow>
          if n = [] \<or> length (lockers h) = 0 then False
          else
            let cleanCityName = toLowerCase (trim n)
            in some (\<lambda>locker. toLowerCase (trim (city locker)) = cleanCityName)
                 (lockers h))"

section \<open>\<open>unnamed/part_001\<close>, third version: the normalised match\<close>

text \<open>
  \<open>normalizeCityName\<close> is a chain of \<open>trim\<close>, \<open>toLowerCase\<close>, three \<open>replace\<close> calls with
  a global regular expression, and \<open>trim\<close> again.

  First \<open>replace(/[^a-zA-Z\<dots>\s]/g, "")\<close>: the class keeps the Latin letters, the Cyrillic
  letters U+0430 to U+044F, the five letters U+0451, U+045E, U+049B, U+0493, U+04B3,
  and white space; every other code unit is removed.
\<close>

definition keptByClass :: "nat \<Rightarrow> bool" where
  "keptByClass c =
     ((97 \<le> c \<and> c \<le> 122) \<or> (65 \<le> c \<and> c \<le> 90) \<or> (1072 \<le> c \<and> c \<le> 1103)
      \<or> c \<in> set [1105, 1118, 1179, 1171, 1203] \<or> isWhiteSpace c)"

text \<open>\<open>replace(/\s+/g, " ")\<close>: every maximal run of white space becomes one space.\<close>

function collapseSpaces :: "jsstring \<Rightarrow> jsstring" where
  "collapseSpaces [] = []"
| "collapseSpaces (c # cs) =
     (if isWhiteSpace c then 32 # collapseSpaces (dropWhile isWhiteSpace cs)
      else c # collapseSpaces cs)"
  by pat_completeness auto
termination
  by (relation "measure length") (auto simp: length_dropWhile_le less_Suc_eq_le)

text \<open>
  \<open>replace(/(w1|w2|\<dots>)/gi, "")\<close>: scanning from the left, at each position the first
  alternative that matches there (ignoring case) is removed and the scan goes on behind
  it; where none matches, the code unit stays. The words of this version are the Russian
  word U+0433 U+043E U+0440 U+043E U+0434, then city, shahri, tumani, viloyati, oblast,
  region, all in small letters. On what the first replace kept, which is all the scan
  meets, a code unit matches a small letter of a word ignoring case exactly when it is
  that letter or its capital; the capital stands 32 places before the small letter, in
  Basic Latin and in the Cyrillic block.
\<close>

definition matchesIgnoringCase :: "nat \<Rightarrow> nat \<Rightarrow> bool" where
  "matchesIgnoringCase c p =
     (c = p \<or> (c + 32 = p \<and> ((65 \<le> c \<and> c \<le> 90) \<or> (1040 \<le> c \<and> c \<le> 1071))))"

fun startsWithIgnoringCase :: "jsstring \<Rightarrow> jsstring \<Rightarrow> bool" where
  "startsWithIgnoringCase s [] = True"
| "startsWithIgnoringCase [] (p # ps) = False"
| "startsWithIgnoringCase (c # cs) (p # ps) =
     (if matchesIgnoringCase c p then startsWithIgnoringCase cs ps else False)"

definition citySuffixes :: "jsstring list" where
  "citySuffixes =
     [[1075, 1086, 1088, 1086, 1076], str ''city'', str ''shahri'', str ''tumani'',
      str ''viloyati'', str ''oblast'', str ''region'']"

fun removeCitySuffixes :: "jsstring \<Rightarrow> jsstring" where
  "removeCitySuffixes [] = []"
| "removeCitySuffixes (c # cs) =
     (case find_first (startsWithIgnoringCase (c # cs)) citySuffixes of
        Some w \<Rightarrow> removeCitySuffixes (drop (length w - 1) cs)
      | None \<Rightarrow> c # removeCitySuffixes cs)"

definition normalizeCityName :: "(jsstring \<Rightarrow> jsstring) \<Rightarrow> jsstring \<Rightarrow> jsstring" where
  "normalizeCityName toLowerCase name =
     trim (removeCitySuffixes (collapseSpaces (filter keptByClass (toLowerCase (trim name)))))"

text \<open>\<open>s.split(" ")\<close>: the pieces between single spaces, empty pieces included.\<close>

fun split_on :: "nat \<Rightarrow> jsstring \<Rightarrow> jsstring list" where
  "split_on d [] = [[]]"
| "split_on d (c # cs) =
     (if c = d then [] # split_on d cs
      else (case split_on d cs of
              [] \<Rightarrow> [[c]]
            | w # ws \<Rightarrow> (c # w) # ws))"

text \<open>The callback of \<open>some\<close> in \<open>hasWarehouse\<close> and, word for word, in \<open>hasLocker\<close>.\<close>

definition matchesNormalized :: "jsstring \<Rightarrow> jsstring \<Rightarrow> bool" where
  "matchesNormalized normalizedSearchCity normalizedWarehouseCity =
     (if normalizedWarehouseCity = normalizedSearchCity then True
      else if includes_str normalizedWarehouseCity normalizedSearchCity
              \<or> includes_str normalizedSearchCity normalizedWarehouseCity then True
      else
        let searchWords = filter (\<lambda>w. length w > 2) (split_on 32 normalizedSearchCity);
            warehouseWords = filter (\<lambda>w. length w > 2) (split_on 32 normalizedWarehouseCity)
        in some (\<lambda>searchWord.
                   some (\<lambda>warehouseWord.
                           includes_str warehouseWord searchWord
                           \<or> includes_str searchWord warehouseWord)
                     warehouseWords)
             searchWords)"

definition hasWarehouse_norm ::
  "(jsstring \<Rightarrow> jsstring) \<Rightarrow> hook \<Rightarrow> jsstring option \<Rightarrow> bool"
where
  "hasWarehouse_norm toLowerCase h cityName =
     (case cityName of
        None \<Rightarrow> False
      | Some n \<Rightarrow>
          if n = [] \<or> length (warehouses h) = 0 then False
          else
            let normalizedSearchCity = normalizeCityName toLowerCase n
            in some (\<lambda>warehouse.
                       matchesNormalized normalizedSearchCity
                         (normalizeCityName toLowerCase (city warehouse)))
                 (warehouses h))"

definition hasLocker_norm ::
  "(jsstring \<Rightarrow> jsstring) \<Rightarrow> hook \<Rightarrow> jsstring option \<Rightarrow> bool"
where
  "hasLocker_norm toLowerCase h cityName =
     (case cityName of
        None \<Rightarrow> False
      | Some n \<Rightarrow>
          if n = [] \<or> length (lockers h) = 0 then False
          else
            let normalizedSearchCity = normalizeCityName toLowerCase n
            in some (\<lambda>locker.
                       matchesNormalized normalizedSearchCity
                         (normalizeCityName toLowerCase (city locker)))
                 (lockers h))"

text \<open>
  The cities this version is called with are region cities (with \<open>names\<close>) or plain
  cities (with \<open>name\<close>): its \<open>getDisplayName(city: any)\<close> reads
  \<open>city.names.ru || city.names.en || city.names.uz\<close> when \<open>city.names\<close> is there, and
  \<open>city.name || null\<close> otherwise. \<open>None\<close> stands for null and undefined.
\<close>

datatype anyCity = Plain City | Region RegionCity

fun getDisplayName_any :: "anyCity option \<Rightarrow> jsstring option" where
  "getDisplayName_any None = None"
| "getDisplayName_any (Some (Region rc)) =
     (if \<not> falsy (names_ru (names rc)) then names_ru (names rc)
      else if \<not> falsy (names_en (names rc)) then names_en (names rc)
      else names_uz (names rc))"
| "getDisplayName_any (Some (Plain c)) = orNull (Some (city_name c))"

text \<open>\<open>originCity?.name || ""\<close>: a region city has no \<open>name\<close>.\<close>

fun plainNameOrEmpty :: "anyCity option \<Rightarrow> jsstring" where
  "plainNameOrEmpty (Some (Plain c)) = city_name c"
| "plainNameOrEmpty _ = []"

definition shouldShowWarehouseWarning_norm ::
  "(jsstring \<Rightarrow> jsstring) \<Rightarrow> hook \<Rightarrow> anyCity option \<Rightarrow> anyCity option
   \<Rightarrow> TariffType option \<Rightarrow> warning"
where
  "shouldShowWarehouseWarning_norm toLowerCase h originCity destinationCity tariffType =
     (case tariffType of
        None \<Rightarrow> \<lparr>show_warning = False, message = Empty\<rparr>
      | Some tt \<Rightarrow>
          if loading h then \<lparr>show_warning = False, message = Empty\<rparr>
          else if \<not> List.member
                  [OFFICE_OFFICE, OFFICE_DOOR, DOOR_OFFICE, OFFICE_POSTAMAT, DOOR_POSTAMAT] tt
          then \<lparr>show_warning = False, message = Empty\<rparr>
          else
            let originCityName = getDisplayName_any originCity;
                destinationCityName = getDisplayName_any destinationCity;
                originHasWarehouse = hasWarehouse_norm toLowerCase h originCityName;
                destinationHasWarehouse = hasWarehouse_norm toLowerCase h destinationCityName;
                destinationHasLocker = hasLocker_norm toLowerCase h destinationCityName
            in
              if tt = OFFICE_OFFICE \<and> \<not> originHasWarehouse \<and> \<not> destinationHasWarehouse then
                \<lparr>show_warning = True, message = T noWarehouses\<rparr>
              else if tt = OFFICE_OFFICE \<and> \<not> originHasWarehouse then
                \<lparr>show_warning = True,
                 message = FormatMessage noOriginWarehouse
                   [(''city'', Some (orEmpty originCityName))]\<rparr>
              else if tt = OFFICE_OFFICE \<and> \<not> destinationHasWarehouse then
                \<lparr>show_warning = True,
                 message = FormatMessage noDestinationWarehouse
                   [(''city'', Some (orEmpty destinationCityName))]\<rparr>
              else if tt = OFFICE_DOOR \<and> \<not> originHasWarehouse then
                \<lparr>show_warning = True,
                 message = FormatMessage noOriginWarehouse
                   [(''city'', Some (plainNameOrEmpty originCity))]\<rparr>
              else if tt = OFFICE_POSTAMAT \<and> \<not> originHasWarehouse \<and> \<not> destinationHasLocker then
                \<lparr>show_warning = True,
                 message = FormatMessage noOriginWarehouseAndDestinationLocker
                   [(''originCity'', Some (orEmpty originCityName)),
                    (''destinationCity'', Some (orEmpty destinationCityName))]\<rparr>
              else if tt = OFFICE_POSTAMAT \<and> \<not> originHasWarehouse then
                \<lparr>show_warning = True,
                 message = FormatMessage noOriginWarehouse
                   [(''city'', Some (orEmpty originCityName))]\<rparr>
              else if tt = OFFICE_POSTAMAT \<and> \<not> destinationHasLocker then
                \<lparr>show_warning = True,
                 message = FormatMessage noDestinationLocker
                   [(''city'', Some (orEmpty destinationCityName))]\<rparr>
              else if tt = DOOR_OFFICE \<and> \<not> destinationHasWarehouse then
                \<lparr>show_warning = True,
                 message = FormatMessage noDestinationWarehouse
                   [(''city'', Some (plainNameOrEmpty destinationCity))]\<rparr>
              else if tt = DOOR_POSTAMAT \<and> \<not> destinationHasLocker then
                \<lparr>show_warning = True,
                 message = FormatMessage noDestinationLocker
                   [(''city'', Some (plainNameOrEmpty destinationCity))]\<rparr>
              else \<lparr>show_warning = False, message = Empty\<rparr>)"

section \<open>Service points as the backend sends them\<close>











section \<open>\<open>client/hooks/useRegionBasedTariffCalculator.ts\<close>\<close>

text \<open>
  Modelled from the spec: \<open>RegionBasedTariffCalculatorForm\<close> is declared in
  \<open>@shared/api\<close>; its four fields are those the hook initialises.
\<close>

record RegionBasedTariffCalculatorForm =
  originCity :: "RegionCity option"
  destinationCity :: "RegionCity option"
  tariffType :: "TariffType option"
  weight :: jsstring

text \<open>
  \<open>warehouseData\<close> is the object \<open>useWarehouseCheck()\<close> returns; the calculator calls its
  \<open>hasWarehouse\<close> and \<open>hasLocker\<close>. An object is never falsy, so the test
  \<open>!warehouseData\<close> of the source is always false and has no branch here.
\<close>

record warehouseData =
  wd_hasWarehouse :: "jsstring option \<Rightarrow> bool"
  wd_hasLocker :: "jsstring option \<Rightarrow> bool"

text \<open>The state the two checks read: the form, the cities of the API and the language.\<close>

record calculator =
  form :: RegionBasedTariffCalculatorForm
  apiCities :: "City list"
  lang :: language

datatype warningType = info | warning

record tariffWarning = warning +
  type_of_warning :: warningType

definition findApiCityByShipoxId :: "City list \<Rightarrow> RegionCity \<Rightarrow> City option" where
  "findApiCityByShipoxId cs regionCity = find_first (\<lambda>c. city_id c = shipox_id regionCity) cs"

definition convertedOriginCity :: "calculator \<Rightarrow> City option" where
  "convertedOriginCity c =
     (case originCity (form c) of
        None \<Rightarrow> None
      | Some rc \<Rightarrow> findApiCityByShipoxId (apiCities c) rc)"

definition convertedDestinationCity :: "calculator \<Rightarrow> City option" where
  "convertedDestinationCity c =
     (case destinationCity (form c) of
        None \<Rightarrow> None
      | Some rc \<Rightarrow> findApiCityByShipoxId (apiCities c) rc)"

text \<open>\<open>regionCity.names[language] || regionCity.names.en\<close>.\<close>

definition getDisplayName :: "language \<Rightarrow> RegionCity \<Rightarrow> jsstring option" where
  "getDisplayName l regionCity =
     (let n = (case l of ru \<Rightarrow> names_ru (names regionCity)
                       | en \<Rightarrow> names_en (names regionCity)
                       | uz \<Rightarrow> names_uz (names regionCity))
      in if falsy n then names_en (names regionCity) else n)"

definition noWarning :: tariffWarning where
  "noWarning = \<lparr>show_warning = False, message = Empty, type_of_warning = info\<rparr>"

definition createWarehouseWarning :: "calculator \<Rightarrow> warehouseData \<Rightarrow> tariffWarning" where
  "createWarehouseWarning c wd =
     (case (originCity (form c), destinationCity (form c), tariffType (form c),
            convertedOriginCity c, convertedDestinationCity c) of
        (Some oc, Some dc, Some tt, Some co, Some cd) \<Rightarrow>
          if \<not> includes_str (tariffName tt) ''OFFICE'' then noWarning
          else
            let hasOriginWarehouse = wd_hasWarehouse wd (Some (city_name co));
                hasDestinationWarehouse = wd_hasWarehouse wd (Some (city_name cd));
                hasOriginLocker = wd_hasLocker wd (Some (city_name co));
                hasDestinationLocker = wd_hasLocker wd (Some (city_name cd));
                hasOriginServices = (hasOriginWarehouse \<or> hasOriginLocker);
                hasDestinationServices = (hasDestinationWarehouse \<or> hasDestinationLocker);
                needsOriginOffice = startsWith (tariffName tt) ''OFFICE'';
                needsDestinationOffice = endsWith (tariffName tt) ''OFFICE''
            in
              if needsOriginOffice \<and> needsDestinationOffice
                   \<and> \<not> hasOriginServices \<and> \<not> hasDestinationServices then
                \<lparr>show_warning = True,
                 message = FormatMessage noWarehouses
                   [(''origin'', getDisplayName (lang c) oc),
                    (''destination'', getDisplayName (lang c) dc)],
                 type_of_warning = warning\<rparr>
              else if needsOriginOffice \<and> \<not> hasOriginServices then
                \<lparr>show_warning = True,
                 message = FormatMessage noOriginWarehouse
                   [(''city'', getDisplayName (lang c) oc)],
                 type_of_warning = warning\<rparr>
              else if needsDestinationOffice \<and> \<not> hasDestinationServices then
                \<lparr>show_warning = True,
                 message = FormatMessage noDestinationWarehouse
                   [(''city'', getDisplayName (lang c) dc)],
                 type_of_warning = warning\<rparr>
              else noWarning
      | _ \<Rightarrow> noWarning)"

definition isCalculationDisabled :: "calculator \<Rightarrow> warehouseData \<Rightarrow> bool" where
  "isCalculationDisabled c wd =
     (case (originCity (form c), destinationCity (form c), tariffType (form c),
            convertedOriginCity c, convertedDestinationCity c) of
        (Some oc, Some dc, Some tt, Some co, Some cd) \<Rightarrow>
          let needsOriginOffice = startsWith (tariffName tt) ''OFFICE'';
              needsDestinationOffice =
                (endsWith (tariffName tt) ''OFFICE'' \<or> endsWith (tariffName tt) ''POSTAMAT'')
          in
            if \<not> needsOriginOffice \<and> \<not> needsDestinationOffice then False
            else
              let hasOriginWarehouse = wd_hasWarehouse wd (Some (city_name co));
                  hasDestinationWarehouse = wd_hasWarehouse wd (Some (city_name cd));
                  hasOriginLocker = wd_hasLocker wd (Some (city_name co));
                  hasDestinationLocker = wd_hasLocker wd (Some (city_name cd));
                  hasOriginServices = (hasOriginWarehouse \<or> hasOriginLocker);
                  hasDestinationServices = (hasDestinationWarehouse \<or> hasDestinationLocker)
              in
                if needsOriginOffice \<and> \<not> hasOriginServices then True
                else if needsDestinationOffice \<and> \<not> hasDestinationServices then True
                else False
      | _ \<Rightarrow> False)"

section \<open>Numbers: \<open>parseFloat\<close>\<close>

text \<open>
  A JavaScript Number, as far as the weight needs it: \<open>NaN\<close>, the two infinities, or a
  finite value, kept as the rational number it is. The two zeros are one value here.
\<close>

datatype number = NaN | PosInfinity | NegInfinity | Finite rat

fun isNaN :: "number \<Rightarrow> bool" where
  "isNaN NaN = True"
| "isNaN _ = False"

text \<open>\<open>x > 0\<close> and \<open>x <= 0\<close>; every comparison with \<open>NaN\<close> is false.\<close>

fun greaterThanZero :: "number \<Rightarrow> bool" where
  "greaterThanZero (Finite q) = (0 < q)"
| "greaterThanZero PosInfinity = True"
| "greaterThanZero _ = False"

fun lessOrEqualZero :: "number \<Rightarrow> bool" where
  "lessOrEqualZero (Finite q) = (q \<le> 0)"
| "lessOrEqualZero NegInfinity = True"
| "lessOrEqualZero _ = False"

fun negate :: "number \<Rightarrow> number" where
  "negate NaN = NaN"
| "negate PosInfinity = NegInfinity"
| "negate NegInfinity = PosInfinity"
| "negate (Finite q) = Finite (- q)"

text \<open>
  The Number value for a non-negative rational: the nearest binary64 value, ties to the
  even significand; \<open>2 ^ 1024\<close> and beyond is infinity, and the spacing below
  \<open>2 ^ (-1022)\<close> is that of the subnormal numbers.
\<close>

definition pow2 :: "int \<Rightarrow> rat" where
  "pow2 e = (if 0 \<le> e then 2 ^ nat e else 1 / 2 ^ nat (- e))"

definition pow10 :: "int \<Rightarrow> rat" where
  "pow10 e = (if 0 \<le> e then 10 ^ nat e else 1 / 10 ^ nat (- e))"

definition floorLog2 :: "rat \<Rightarrow> int" where
  "floorLog2 q =
     (let k = bitlen (fst (quotient_of q)) - bitlen (snd (quotient_of q))
      in if pow2 k \<le> q then k else k - 1)"

definition roundHalfEven :: "rat \<Rightarrow> int" where
  "roundHalfEven x =
     (let f = \<lfloor>x\<rfloor>; d = x - of_int f
      in if d < 1 / 2 then f
         else if 1 / 2 < d then f + 1
         else if even f then f else f + 1)"

definition numberValue :: "rat \<Rightarrow> number" where
  "numberValue q =
     (if q = 0 then Finite 0
      else
        let e = max (floorLog2 q) (- 1022);
            ulp = pow2 (e - 52);
            r = of_int (roundHalfEven (q / ulp)) * ulp
        in if pow2 1024 \<le> r then PosInfinity else Finite r)"

text \<open>
  \<open>parseFloat\<close> skips leading white space, reads the longest prefix that is a
  StrDecimalLiteral (a sign, then \<open>Infinity\<close> or digits with an optional fraction and an
  optional exponent; an exponent counts only when it has a digit) and returns its
  Number value, or \<open>NaN\<close> when there is no such prefix. What follows the prefix is
  ignored.
\<close>

definition isDigit :: "nat \<Rightarrow> bool" where
  "isDigit c = (48 \<le> c \<and> c \<le> 57)"

definition digitsValue :: "jsstring \<Rightarrow> nat" where
  "digitsValue ds = foldl (\<lambda>a c. 10 * a + (c - 48)) 0 ds"

text \<open>The value of the exponent part at the head of \<open>s\<close>; 0 when there is none.\<close>

definition exponentPart :: "jsstring \<Rightarrow> int" where
  "exponentPart s =
     (case s of
        [] \<Rightarrow> 0
      | e # r \<Rightarrow>
          if e = 101 \<or> e = 69 then
            (case r of
               [] \<Rightarrow> 0
             | sign # r' \<Rightarrow>
                 if sign = 45 then
                   (if takeWhile isDigit r' = [] then 0
                    else - int (digitsValue (takeWhile isDigit r')))
                 else if sign = 43 then int (digitsValue (takeWhile isDigit r'))
                 else int (digitsValue (takeWhile isDigit r)))
          else 0)"

definition unsignedLiteral :: "jsstring \<Rightarrow> rat option" where
  "unsignedLiteral s =
     (let ip = takeWhile isDigit s; r1 = dropWhile isDigit s
      in if ip \<noteq> [] then
           (case r1 of
              [] \<Rightarrow> Some (of_nat (digitsValue ip))
            | dot # r2 \<Rightarrow>
                if dot = 46 then
                  (let fp = takeWhile isDigit r2; r3 = dropWhile isDigit r2
                   in Some (of_nat (digitsValue (ip @ fp))
                            * pow10 (exponentPart r3 - int (length fp))))
                else Some (of_nat (digitsValue ip) * pow10 (exponentPart r1)))
         else
           (case s of
              [] \<Rightarrow> None
            | dot # r2 \<Rightarrow>
                if dot = 46 \<and> takeWhile isDigit r2 \<noteq> [] then
                  (let fp = takeWhile isDigit r2; r3 = dropWhile isDigit r2
                   in Some (of_nat (digitsValue fp)
                            * pow10 (exponentPart r3 - int (length fp))))
                else None))"

definition unsignedNumber :: "jsstring \<Rightarrow> number" where
  "unsignedNumber s =
     (if startsWith s (str ''Infinity'') then PosInfinity
      else (case unsignedLiteral s of None \<Rightarrow> NaN | Some q \<Rightarrow> numberValue q))"

definition parseFloat :: "jsstring \<Rightarrow> number" where
  "parseFloat s =
     (case dropWhile isWhiteSpace s of
        [] \<Rightarrow> NaN
      | c # r \<Rightarrow>
          if c = 43 then unsignedNumber r
          else if c = 45 then negate (unsignedNumber r)
          else unsignedNumber (c # r))"

section \<open>\<open>useRegionBasedTariffCalculator.ts\<close>: validating and sending\<close>

text \<open>
  \<open>isFormValid\<close> returns the value of an \<open>&&\<close> chain; what its callers test is whether
  that value is truthy.
\<close>

definition isFormValid :: "calculator \<Rightarrow> bool" where
  "isFormValid c =
     (let w = parseFloat (weight (form c))
      in originCity (form c) \<noteq> None \<and> destinationCity (form c) \<noteq> None
         \<and> tariffType (form c) \<noteq> None \<and> weight (form c) \<noteq> []
         \<and> \<not> isNaN w \<and> greaterThanZero w)"

text \<open>The JSON body of the request to \<open>/api/calculate-tariff\<close>.\<close>

record TariffRequest =
  from_latitude :: "rat option"
  from_longitude :: "rat option"
  to_latitude :: "rat option"
  to_longitude :: "rat option"
  body_weight :: number
  tariff_type :: "TariffType option"

text \<open>
  The state \<open>calculateTariff\<close> writes (\<open>result\<close>, \<open>loading\<close>, \<open>error\<close> of the hook), and
  what the request can come back with: a rejected fetch, a response that is not ok, or
  an ok response whose body parses (\<open>Some\<close>) or does not.
\<close>

record 'r requestState =
  result :: "'r option"
  calc_loading :: bool
  calc_error :: "message option"

datatype 'r tariffResponse = FetchRejected | NotOk | OkBody "'r option"

text \<open>
  \<open>calculateTariff\<close> returns the new state and the request it sent, if it sent one. The
  two early returns set the error and leave the rest; past them \<open>setLoading(true)\<close> and
  \<open>setError(null)\<close> run, and everything else is inside \<open>try\<close>: reading a coordinate of a
  converted city that is null throws before the fetch, and every exception ends in
  \<open>setError(t.calculationError)\<close>, with \<open>setLoading(false)\<close> in the \<open>finally\<close>.
\<close>

definition calculateTariff ::
  "calculator \<Rightarrow> 'r requestState \<Rightarrow> (TariffRequest \<Rightarrow> 'r tariffResponse)
   \<Rightarrow> 'r requestState \<times> TariffRequest option"
where
  "calculateTariff c st respond =
     (if \<not> isFormValid c then (st\<lparr>calc_error := Some (T fillAllFields)\<rparr>, None)
      else
        let w = parseFloat (weight (form c))
        in if isNaN w \<or> lessOrEqualZero w then
             (st\<lparr>calc_error := Some (T correctWeight)\<rparr>, None)
           else
             (case (convertedOriginCity c, convertedDestinationCity c) of
                (Some originApiCity, Some destinationApiCity) \<Rightarrow>
                  let request =
                        \<lparr>from_latitude = center_latitude originApiCity,
                         from_longitude = center_longitude originApiCity,
                         to_latitude = center_latitude destinationApiCity,
                         to_longitude = center_longitude destinationApiCity,
                         body_weight = w,
                         tariff_type = tariffType (form c)\<rparr>
                  in (case respond request of
                        OkBody (Some data) \<Rightarrow>
                          (st\<lparr>result := Some data, calc_loading := False,
                              calc_error := None\<rparr>,
                           Some request)
                      | _ \<Rightarrow>
                          (st\<lparr>calc_loading := False,
                              calc_error := Some (T calculationError)\<rparr>,
                           Some request))
              | _ \<Rightarrow>
                  (st\<lparr>calc_loading := False, calc_error := Some (T calculationError)\<rparr>,
                   None)))"

text \<open>The object \<open>useWarehouseCheck()\<close> of \<open>unnamed/part_000\<close> hands to the calculator.\<close>

definition useWarehouseCheck_p0 :: "hook \<Rightarrow> warehouseData" where
  "useWarehouseCheck_p0 h = \<lparr>wd_hasWarehouse = hasWarehouse h, wd_hasLocker = hasLocker h\<rparr>"

section \<open>Example data\<close>

text \<open>Two cities, one office in the first and one locker in the second.\<close>

definition tashkent :: City where
  "tashkent = \<lparr>city_id = 1, city_name = str ''Tashkent'',
     center_latitude = Some (413 / 10), center_longitude = Some (693 / 10)\<rparr>"

definition samarkand :: City where
  "samarkand = \<lparr>city_id = 2, city_name = str ''Samarkand'',
     center_latitude = Some (397 / 10), center_longitude = Some 67\<rparr>"

definition example_cities :: "City list" where
  "example_cities = [tashkent, samarkand]"

definition office_tashkent :: Warehouse where
  "office_tashkent = \<lparr>wh_id = 10, wh_name = str ''Central office'', city = str ''Tashkent''\<rparr>"

definition locker_samarkand :: Warehouse where
  "locker_samarkand = \<lparr>wh_id = 20, wh_name = str ''Locker 20'', city = str ''Samarkand''\<rparr>"

definition example_hook :: hook where
  "example_hook = \<lparr>warehouses = [office_tashkent], lockers = [locker_samarkand],
     loading = False, error = None\<rparr>"

text \<open>The same two cities as the region cities of the form.\<close>

definition region_tashkent :: RegionCity where
  "region_tashkent = \<lparr>shipox_id = 1,
     names = \<lparr>names_ru = None, names_en = Some (str ''Tashkent''), names_uz = Some (str ''Toshkent'')\<rparr>\<rparr>"

definition region_samarkand :: RegionCity where
  "region_samarkand = \<lparr>shipox_id = 2,
     names = \<lparr>names_ru = None, names_en = Some (str ''Samarkand''), names_uz = Some (str ''Samarqand'')\<rparr>\<rparr>"

text \<open>A calculator whose form is filled in, by tariff type and weight.\<close>

definition example_calculator :: "RegionCity option \<Rightarrow> RegionCity option \<Rightarrow> TariffType \<Rightarrow> jsstring \<Rightarrow> calculator" where
  "example_calculator oc dc tt w =
     \<lparr>form = \<lparr>originCity = oc, destinationCity = dc, tariffType = Some tt, weight = w\<rparr>,
      apiCities = example_cities, lang = en\<rparr>"

text \<open>
  A hook whose only office and only locker are in the same city, written with other
  letter case and with white space around the name.
\<close>

definition padded_hook :: hook where
  "padded_hook =
     \<lparr>warehouses = [\<lparr>wh_id = 11, wh_name = str ''Office 11'', city = str '' Tashkent''\<rparr>],
      lockers = [\<lparr>wh_id = 21, wh_name = str ''Locker 21'', city = str ''TASHKENT ''\<rparr>],
      loading = False, error = None\<rparr>"

text \<open>The request state before the first calculation, and a server that answers 500.\<close>

definition initialRequestState :: "unit requestState" where
  "initialRequestState = \<lparr>result = None, calc_loading = False, calc_error = None\<rparr>"

definition serverError :: "TariffRequest \<Rightarrow> unit tariffResponse" where
  "serverError request = NotOk"

text \<open>
  What \<open>toLowerCase\<close> returns on a string of ASCII code units: the capital letters A to
  Z become small, everything else stays. The examples apply it to such strings only.
\<close>

definition asciiLowerCase :: "jsstring \<Rightarrow> jsstring" where
  "asciiLowerCase s = map (\<lambda>c. if 65 \<le> c \<and> c \<le> 90 then c + 32 else c) s"

text \<open>A hook whose two offices have an empty city name and a city name of one space.\<close>

definition blank_hook :: hook where
  "blank_hook =
     \<lparr>warehouses = [\<lparr>wh_id = 12, wh_name = str ''Office 12'', city = []\<rparr>,
                    \<lparr>wh_id = 13, wh_name = str ''Office 13'', city = str '' ''\<rparr>],
      lockers = [], loading = False, error = None\<rparr>"


section \<open>Facts about the example data and the tariff names\<close>

lemma getCityNameById_idOrNull:
  "getCityNameById cities (idOrNull (Some c)) = getCityNameById cities (Some (city_id c))"
  by (simp add: getCityNameById_def idOrNull_def)

lemma warningFor_show:
  "show_warning (warningFor tt oW dW dL on dn) = disableFor tt oW dW dL"
  by (cases tt) (auto simp: warningFor_def)

lemma example_ids:
  "city_id tashkent = 1" "city_id samarkand = 2"
  "city_name tashkent = str ''Tashkent''" "city_name samarkand = str ''Samarkand''"
  by (simp_all add: tashkent_def samarkand_def)

lemma example_names:
  "getCityNameById example_cities (Some 1) = Some (str ''Tashkent'')"
  "getCityNameById example_cities (Some 2) = Some (str ''Samarkand'')"
  by (simp_all add: getCityNameById_def example_cities_def tashkent_def samarkand_def str_def)

lemma example_has:
  "hasWarehouse example_hook (Some (str ''Tashkent''))"
  "\<not> hasWarehouse example_hook (Some (str ''Samarkand''))"
  "\<not> hasLocker example_hook (Some (str ''Tashkent''))"
  "hasLocker example_hook (Some (str ''Samarkand''))"
  by (simp_all add: hasWarehouse_def hasLocker_def example_hook_def office_tashkent_def
      locker_samarkand_def str_def)

lemma example_converted:
  "convertedOriginCity (example_calculator (Some region_tashkent) d tt w) = Some tashkent"
  "convertedOriginCity (example_calculator (Some region_samarkand) d tt w) = Some samarkand"
  "convertedDestinationCity (example_calculator oc (Some region_tashkent) tt w) = Some tashkent"
  "convertedDestinationCity (example_calculator oc (Some region_samarkand) tt w) = Some samarkand"
  by (simp_all add: convertedOriginCity_def convertedDestinationCity_def
      findApiCityByShipoxId_def example_calculator_def example_cities_def tashkent_def
      samarkand_def region_tashkent_def region_samarkand_def)

section \<open>The disable check\<close>

text \<open>
  C2 (amended). With a null origin or destination city, \<open>shouldDisableCalculation\<close> returns
  true for every tariff type and every state of the hook, in
  \<open>client/hooks/useWarehouseCheck.ts\<close> and in \<open>unnamed/part_000\<close> alike.
  \<open>isCalculationDisabled\<close> of the calculator returns false when the origin or the
  destination of the form is null: its first test leaves that case to the validation
  of the form.
\<close>

theorem disable_when_city_missing:
  assumes "origin = None \<or> destination = None"
    and "originCity (form c) = None \<or> destinationCity (form c) = None"
  shows "shouldDisableCalculation cities h origin destination tt
    \<and> shouldDisableCalculation_p0 h origin destination tt
    \<and> \<not> isCalculationDisabled c wd"
proof (intro conjI)
  show "shouldDisableCalculation cities h origin destination tt"
    using assms(1) by (auto simp: shouldDisableCalculation_def split: option.splits)
  show "shouldDisableCalculation_p0 h origin destination tt"
    using assms(1) by (auto simp: shouldDisableCalculation_p0_def split: option.splits)
  show "\<not> isCalculationDisabled c wd"
    using assms(2) by (auto simp: isCalculationDisabled_def split: option.splits)
qed

theorem disable_when_city_missing_witness:
  "shouldDisableCalculation example_cities example_hook None (Some samarkand) (Some DOOR_OFFICE)
   \<and> shouldDisableCalculation_p0 example_hook None (Some samarkand) (Some DOOR_OFFICE)
   \<and> \<not> isCalculationDisabled
         (example_calculator None (Some region_samarkand) DOOR_OFFICE (str ''5''))
         (useWarehouseCheck_p0 example_hook)"
  using disable_when_city_missing
    [of None "Some samarkand"
        "example_calculator None (Some region_samarkand) DOOR_OFFICE (str ''5'')"
        example_cities example_hook "Some DOOR_OFFICE" "useWarehouseCheck_p0 example_hook"]
  by (simp add: example_calculator_def)

text \<open>
  The claim as stated fails on the calculator: no origin is selected, the tariff is
  \<open>DOOR_OFFICE\<close>, the destination has no warehouse, and \<open>isCalculationDisabled\<close> is false.
\<close>

theorem isCalculationDisabled_null_origin_counterexample:
  "originCity (form (example_calculator None (Some region_samarkand) DOOR_OFFICE (str ''5''))) = None
   \<and> \<not> hasWarehouse example_hook (Some (city_name samarkand))
   \<and> isCalculationDisabled
        (example_calculator None (Some region_samarkand) DOOR_OFFICE (str ''5''))
        (useWarehouseCheck_p0 example_hook) = False"
  by (simp add: isCalculationDisabled_def example_calculator_def example_ids example_has)

text \<open>
  C3 (amended). For \<open>OFFICE_POSTAMAT\<close>, two selected cities and a hook that is not
  loading, \<open>shouldDisableCalculation\<close> is true exactly when the origin has no warehouse or
  the destination has no locker. \<open>isCalculationDisabled\<close> of the calculator, once the
  form is filled in and both cities are found among the cities of the API, is true
  exactly when the origin has neither a warehouse nor a locker, or the destination has
  neither: there a locker at the origin, or a warehouse at the destination, is enough.
\<close>

theorem office_postamat_disable:
  assumes "\<not> loading h"
    and "originCity (form c) = Some ro" and "destinationCity (form c) = Some rd"
    and "tariffType (form c) = Some OFFICE_POSTAMAT"
    and "convertedOriginCity c = Some co" and "convertedDestinationCity c = Some cd"
  shows "shouldDisableCalculation cities h (Some oc) (Some dc) (Some OFFICE_POSTAMAT)
      = (\<not> hasWarehouse h (getCityNameById cities (Some (city_id oc)))
         \<or> \<not> hasLocker h (getCityNameById cities (Some (city_id dc))))
    \<and> isCalculationDisabled c wd
      = ((\<not> wd_hasWarehouse wd (Some (city_name co)) \<and> \<not> wd_hasLocker wd (Some (city_name co)))
         \<or> (\<not> wd_hasWarehouse wd (Some (city_name cd)) \<and> \<not> wd_hasLocker wd (Some (city_name cd))))"
proof
  show "shouldDisableCalculation cities h (Some oc) (Some dc) (Some OFFICE_POSTAMAT)
      = (\<not> hasWarehouse h (getCityNameById cities (Some (city_id oc)))
         \<or> \<not> hasLocker h (getCityNameById cities (Some (city_id dc))))"
    using assms(1) by (simp add: shouldDisableCalculation_def Let_def)
  show "isCalculationDisabled c wd
      = ((\<not> wd_hasWarehouse wd (Some (city_name co)) \<and> \<not> wd_hasLocker wd (Some (city_name co)))
         \<or> (\<not> wd_hasWarehouse wd (Some (city_name cd)) \<and> \<not> wd_hasLocker wd (Some (city_name cd))))"
    using assms(2-6) by (auto simp: isCalculationDisabled_def endsWith_def Let_def)
qed

theorem office_postamat_disable_witness:
  "shouldDisableCalculation example_cities example_hook (Some tashkent) (Some samarkand)
     (Some OFFICE_POSTAMAT) = False
   \<and> isCalculationDisabled
       (example_calculator (Some region_tashkent) (Some region_samarkand) OFFICE_POSTAMAT (str ''5''))
       (useWarehouseCheck_p0 example_hook) = False"
proof -
  let ?c = "example_calculator (Some region_tashkent) (Some region_samarkand) OFFICE_POSTAMAT (str ''5'')"
  have l: "\<not> loading example_hook" by (simp add: example_hook_def)
  have f: "originCity (form ?c) = Some region_tashkent"
    "destinationCity (form ?c) = Some region_samarkand"
    "tariffType (form ?c) = Some OFFICE_POSTAMAT"
    by (simp_all add: example_calculator_def)
  show ?thesis
    using office_postamat_disable [OF l f example_converted(1) example_converted(4),
        of example_cities tashkent samarkand "useWarehouseCheck_p0 example_hook"]
    by (simp add: example_ids example_names example_has useWarehouseCheck_p0_def)
qed

text \<open>
  The claim as stated fails on the calculator: the origin has a locker and no
  warehouse, the destination a warehouse and no locker, and \<open>isCalculationDisabled\<close> is
  false for \<open>OFFICE_POSTAMAT\<close>.
\<close>

theorem isCalculationDisabled_office_postamat_counterexample:
  "\<not> hasWarehouse example_hook (Some (city_name samarkand))
   \<and> \<not> hasLocker example_hook (Some (city_name tashkent))
   \<and> isCalculationDisabled
       (example_calculator (Some region_samarkand) (Some region_tashkent) OFFICE_POSTAMAT (str ''5''))
       (useWarehouseCheck_p0 example_hook) = False"
  by (simp add: isCalculationDisabled_def example_converted endsWith_def example_has
      useWarehouseCheck_p0_def Let_def)
    (simp add: example_ids example_has example_calculator_def)

text \<open>
  C4 (amended). For \<open>DOOR_DOOR\<close>, \<open>shouldDisableCalculation\<close> returns false whatever the
  lists of warehouses and lockers hold, provided that both cities are selected and the
  hook is not loading; \<open>isCalculationDisabled\<close> of the calculator returns false for
  \<open>DOOR_DOOR\<close> in every state.
\<close>

theorem door_door_not_disabled:
  assumes "\<not> loading h" and "tariffType (form c) = Some DOOR_DOOR"
  shows "\<not> shouldDisableCalculation cities h (Some oc) (Some dc) (Some DOOR_DOOR)
    \<and> \<not> isCalculationDisabled c wd"
  using assms
  by (auto simp: shouldDisableCalculation_def isCalculationDisabled_def endsWith_def Let_def
      split: option.splits)

theorem door_door_not_disabled_witness:
  "\<not> shouldDisableCalculation example_cities initialHook (Some tashkent) (Some samarkand)
       (Some DOOR_DOOR)
   \<and> \<not> isCalculationDisabled
       (example_calculator (Some region_tashkent) (Some region_samarkand) DOOR_DOOR (str ''5''))
       (useWarehouseCheck_p0 initialHook)"
proof -
  have l: "\<not> loading initialHook" by (simp add: initialHook_def)
  have t: "tariffType (form (example_calculator (Some region_tashkent) (Some region_samarkand)
      DOOR_DOOR (str ''5''))) = Some DOOR_DOOR"
    by (simp add: example_calculator_def)
  show ?thesis
    using door_door_not_disabled [OF l t] by simp
qed

text \<open>
  The claim as stated fails on the hook: with no origin selected, and also while the
  lists are loading, \<open>shouldDisableCalculation\<close> is true for \<open>DOOR_DOOR\<close>.
\<close>

theorem door_door_disabled_counterexample:
  "shouldDisableCalculation example_cities example_hook None (Some samarkand) (Some DOOR_DOOR)
   \<and> shouldDisableCalculation example_cities (example_hook\<lparr>loading := True\<rparr>)
       (Some tashkent) (Some samarkand) (Some DOOR_DOOR)"
  by (simp add: shouldDisableCalculation_def)

section \<open>Warning and disabling\<close>

text \<open>
  C8. In the exact-match hook (\<open>client/hooks/useWarehouseCheck.ts\<close>), for every origin
  city, destination city and tariff type that are not null, and a hook that is not
  loading: when \<open>shouldShowWarehouseWarning\<close> returns \<open>show = true\<close>,
  \<open>shouldDisableCalculation\<close> returns true on the same arguments.
\<close>

theorem warning_implies_disabled:
  assumes "\<not> loading h"
    and "show_warning (shouldShowWarehouseWarning cities h (Some oc) (Some dc) (Some tt))"
  shows "shouldDisableCalculation cities h (Some oc) (Some dc) (Some tt)"
  using assms
  by (simp add: shouldShowWarehouseWarning_def shouldDisableCalculation_def
      getCityNameById_idOrNull warningFor_show Let_def)

theorem warning_implies_disabled_witness:
  "\<not> loading example_hook
   \<and> show_warning (shouldShowWarehouseWarning example_cities example_hook
         (Some tashkent) (Some samarkand) (Some OFFICE_OFFICE))
   \<and> shouldDisableCalculation example_cities example_hook
         (Some tashkent) (Some samarkand) (Some OFFICE_OFFICE)"
proof -
  have l: "\<not> loading example_hook"
    by (simp add: example_hook_def)
  have s: "show_warning (shouldShowWarehouseWarning example_cities example_hook
         (Some tashkent) (Some samarkand) (Some OFFICE_OFFICE))"
    by (simp add: shouldShowWarehouseWarning_def l getCityNameById_idOrNull example_ids
        example_names example_has warningFor_def)
  from l s warning_implies_disabled [OF l s] show ?thesis by simp
qed

text \<open>
  C9. In the calculator, \<open>createWarehouseWarning\<close> returns \<open>show = false\<close> for every tariff
  type whose name does not contain \<open>OFFICE\<close>, whatever the availability data; the names
  of \<open>DOOR_POSTAMAT\<close> and \<open>DOOR_DOOR\<close> do not contain it. Yet for \<open>DOOR_POSTAMAT\<close>, with
  the form filled in and both cities found, \<open>isCalculationDisabled\<close> returns true when
  the destination has neither a warehouse nor a locker: the calculation is blocked and
  no warning is shown.
\<close>

theorem no_warning_without_office:
  assumes "tariffType (form c) = Some tt"
    and "\<not> includes_str (tariffName tt) ''OFFICE''"
  shows "\<not> show_warning (createWarehouseWarning c wd)
    \<and> \<not> includes_str (tariffName DOOR_POSTAMAT) ''OFFICE''
    \<and> \<not> includes_str (tariffName DOOR_DOOR) ''OFFICE''
    \<and> (tt = DOOR_POSTAMAT \<and> originCity (form c) \<noteq> None \<and> destinationCity (form c) \<noteq> None
        \<and> convertedOriginCity c \<noteq> None \<and> convertedDestinationCity c = Some cd
        \<and> \<not> wd_hasWarehouse wd (Some (city_name cd)) \<and> \<not> wd_hasLocker wd (Some (city_name cd))
        \<longrightarrow> isCalculationDisabled c wd)"
proof (intro conjI impI)
  show "\<not> show_warning (createWarehouseWarning c wd)"
    using assms by (auto simp: createWarehouseWarning_def noWarning_def split: option.splits)
  show "\<not> includes_str (tariffName DOOR_POSTAMAT) ''OFFICE''"
    by simp
  show "\<not> includes_str (tariffName DOOR_DOOR) ''OFFICE''"
    by simp
  assume "tt = DOOR_POSTAMAT \<and> originCity (form c) \<noteq> None \<and> destinationCity (form c) \<noteq> None
        \<and> convertedOriginCity c \<noteq> None \<and> convertedDestinationCity c = Some cd
        \<and> \<not> wd_hasWarehouse wd (Some (city_name cd)) \<and> \<not> wd_hasLocker wd (Some (city_name cd))"
  with assms(1) show "isCalculationDisabled c wd"
    by (auto simp: isCalculationDisabled_def endsWith_def Let_def)
qed

theorem no_warning_without_office_witness:
  "\<not> show_warning (createWarehouseWarning
        (example_calculator (Some region_tashkent) (Some region_samarkand) DOOR_POSTAMAT (str ''5''))
        (useWarehouseCheck_p0 initialHook))
   \<and> isCalculationDisabled
        (example_calculator (Some region_tashkent) (Some region_samarkand) DOOR_POSTAMAT (str ''5''))
        (useWarehouseCheck_p0 initialHook)"
proof -
  let ?c = "example_calculator (Some region_tashkent) (Some region_samarkand) DOOR_POSTAMAT (str ''5'')"
  have t: "tariffType (form ?c) = Some DOOR_POSTAMAT"
    "originCity (form ?c) \<noteq> None" "destinationCity (form ?c) \<noteq> None"
    by (simp_all add: example_calculator_def)
  have n: "\<not> includes_str (tariffName DOOR_POSTAMAT) ''OFFICE''"
    by simp
  have e: "\<not> wd_hasWarehouse (useWarehouseCheck_p0 initialHook) (Some (city_name samarkand))"
    "\<not> wd_hasLocker (useWarehouseCheck_p0 initialHook) (Some (city_name samarkand))"
    by (simp_all add: useWarehouseCheck_p0_def hasWarehouse_def hasLocker_def initialHook_def)
  show ?thesis
    using no_warning_without_office [OF t(1) n, of "useWarehouseCheck_p0 initialHook" samarkand]
      t e example_converted
    by simp
qed

section \<open>Matching city names\<close>

lemma some_iff: "some p xs = (\<exists>x \<in> set xs. p x)"
  by (induction xs) auto

lemma str_eq_Nil: "(str s = []) = (s = [])"
  by (simp add: str_def)

lemma dropWhile_padding:
  assumes "list_all isWhiteSpace pre"
  shows "dropWhile isWhiteSpace (pre @ s) = dropWhile isWhiteSpace s"
  using assms by (induction pre) simp_all

lemma trim_padding_left:
  assumes "list_all isWhiteSpace pre"
  shows "trim (pre @ s) = trim s"
  using assms by (simp add: trim_def dropWhile_padding)

lemma trim_padding_right:
  assumes "list_all isWhiteSpace post"
  shows "trim (s @ post) = trim s"
proof (cases "list_all isWhiteSpace s")
  case True
  with assms have "list_all isWhiteSpace (s @ post)" by simp
  then have a: "dropWhile isWhiteSpace (s @ post) = []"
    by (simp add: list_all_iff)
  from True have b: "dropWhile isWhiteSpace s = []"
    by (simp add: list_all_iff)
  show ?thesis by (simp only: trim_def a b)
next
  case False
  then obtain x where x: "x \<in> set s" "\<not> isWhiteSpace x"
    by (auto simp: list_all_iff)
  then have "dropWhile isWhiteSpace (s @ post) = dropWhile isWhiteSpace s @ post"
    by (simp add: dropWhile_append1)
  moreover from assms have "list_all isWhiteSpace (rev post)" by simp
  ultimately show ?thesis
    by (simp add: trim_def dropWhile_padding)
qed

lemma trim_padding:
  assumes "list_all isWhiteSpace pre" and "list_all isWhiteSpace post"
  shows "trim (pre @ m @ post) = trim m"
  using assms by (simp add: trim_padding_left trim_padding_right)

lemma trim_core:
  assumes "list_all isWhiteSpace pre" and "list_all isWhiteSpace post" and "trim m = m"
  shows "trim (pre @ m @ post) = m"
  using trim_padding [OF assms(1,2), of m] assms(3) by simp

lemma hasWarehouse_trim_found:
  assumes "w \<in> set (warehouses h)" and "cityName \<noteq> []"
    and "toLowerCase (trim (city w)) = toLowerCase (trim cityName)"
  shows "hasWarehouse_trim toLowerCase h (Some cityName)"
proof -
  from assms(1,3) have "\<exists>x \<in> set (warehouses h).
      toLowerCase (trim (city x)) = toLowerCase (trim cityName)"
    by blast
  moreover from assms(1) have "warehouses h \<noteq> []"
    by auto
  ultimately show ?thesis
    using assms(2) by (simp add: hasWarehouse_trim_def some_iff)
qed

lemma hasLocker_trim_found:
  assumes "l \<in> set (lockers h)" and "cityName \<noteq> []"
    and "toLowerCase (trim (city l)) = toLowerCase (trim cityName)"
  shows "hasLocker_trim toLowerCase h (Some cityName)"
proof -
  from assms(1,3) have "\<exists>x \<in> set (lockers h).
      toLowerCase (trim (city x)) = toLowerCase (trim cityName)"
    by blast
  moreover from assms(1) have "lockers h \<noteq> []"
    by auto
  ultimately show ?thesis
    using assms(2) by (simp add: hasLocker_trim_def some_iff)
qed

text \<open>
  C1 (amended). In the trimming version of the hook (\<open>unnamed/part_001\<close>, second
  version), for every city name in the list of warehouses (of lockers), \<open>hasWarehouse\<close>
  (\<open>hasLocker\<close>) returns true for every non-empty query that differs from that name
  only in the case of letters and in white space at its two ends: query and name are
  each a core with no white space at its ends, between two runs of white space, and
  \<open>toLowerCase\<close> gives the two cores the same string. This holds for every case mapping
  in the place of \<open>toLowerCase\<close>. The exact-match hook
  (\<open>client/hooks/useWarehouseCheck.ts\<close>) compares with \<open>===\<close>: for every query it
  returns true exactly when the query is not empty and is itself the city of a
  warehouse (of a locker).
\<close>

theorem hasWarehouse_case_and_padding:
  "(w \<in> set (warehouses h)
      \<and> city w = pre\<^sub>w @ m\<^sub>w @ post\<^sub>w
      \<and> list_all isWhiteSpace pre\<^sub>w \<and> list_all isWhiteSpace post\<^sub>w \<and> trim m\<^sub>w = m\<^sub>w
      \<and> cityName = pre @ m @ post \<and> cityName \<noteq> []
      \<and> list_all isWhiteSpace pre \<and> list_all isWhiteSpace post \<and> trim m = m
      \<and> toLowerCase m = toLowerCase m\<^sub>w
    \<longrightarrow> hasWarehouse_trim toLowerCase h (Some cityName))
   \<and> (l \<in> set (lockers h)
      \<and> city l = pre\<^sub>l @ m\<^sub>l @ post\<^sub>l
      \<and> list_all isWhiteSpace pre\<^sub>l \<and> list_all isWhiteSpace post\<^sub>l \<and> trim m\<^sub>l = m\<^sub>l
      \<and> cityName = pre @ m @ post \<and> cityName \<noteq> []
      \<and> list_all isWhiteSpace pre \<and> list_all isWhiteSpace post \<and> trim m = m
      \<and> toLowerCase m = toLowerCase m\<^sub>l
    \<longrightarrow> hasLocker_trim toLowerCase h (Some cityName))
   \<and> hasWarehouse g (Some query) = (query \<noteq> [] \<and> query \<in> city ` set (warehouses g))
   \<and> hasLocker g (Some query) = (query \<noteq> [] \<and> query \<in> city ` set (lockers g))"
proof (intro conjI impI)
  assume a: "w \<in> set (warehouses h)
      \<and> city w = pre\<^sub>w @ m\<^sub>w @ post\<^sub>w
      \<and> list_all isWhiteSpace pre\<^sub>w \<and> list_all isWhiteSpace post\<^sub>w \<and> trim m\<^sub>w = m\<^sub>w
      \<and> cityName = pre @ m @ post \<and> cityName \<noteq> []
      \<and> list_all isWhiteSpace pre \<and> list_all isWhiteSpace post \<and> trim m = m
      \<and> toLowerCase m = toLowerCase m\<^sub>w"
  then have "trim (city w) = m\<^sub>w" and "trim cityName = m"
    by (simp_all add: trim_core)
  with a have "toLowerCase (trim (city w)) = toLowerCase (trim cityName)"
    by simp
  with a show "hasWarehouse_trim toLowerCase h (Some cityName)"
    by (blast intro: hasWarehouse_trim_found)
next
  assume a: "l \<in> set (lockers h)
      \<and> city l = pre\<^sub>l @ m\<^sub>l @ post\<^sub>l
      \<and> list_all isWhiteSpace pre\<^sub>l \<and> list_all isWhiteSpace post\<^sub>l \<and> trim m\<^sub>l = m\<^sub>l
      \<and> cityName = pre @ m @ post \<and> cityName \<noteq> []
      \<and> list_all isWhiteSpace pre \<and> list_all isWhiteSpace post \<and> trim m = m
      \<and> toLowerCase m = toLowerCase m\<^sub>l"
  then have "trim (city l) = m\<^sub>l" and "trim cityName = m"
    by (simp_all add: trim_core)
  with a have "toLowerCase (trim (city l)) = toLowerCase (trim cityName)"
    by simp
  with a show "hasLocker_trim toLowerCase h (Some cityName)"
    by (blast intro: hasLocker_trim_found)
next
  show "hasWarehouse g (Some query) = (query \<noteq> [] \<and> query \<in> city ` set (warehouses g))"
    by (auto simp: hasWarehouse_def some_iff)
  show "hasLocker g (Some query) = (query \<noteq> [] \<and> query \<in> city ` set (lockers g))"
    by (auto simp: hasLocker_def some_iff)
qed

theorem hasWarehouse_case_and_padding_witness:
  "hasWarehouse_trim asciiLowerCase padded_hook (Some (str ''  tashkent ''))
   \<and> hasLocker_trim asciiLowerCase padded_hook (Some (str ''  tashkent ''))
   \<and> hasWarehouse padded_hook (Some (str ''  tashkent '')) = False
   \<and> hasLocker padded_hook (Some (str ''  tashkent '')) = False
   \<and> hasWarehouse padded_hook (Some (str '' Tashkent'')) = True"
proof -
  let ?w = "\<lparr>wh_id = 11, wh_name = str ''Office 11'', city = str '' Tashkent''\<rparr>"
  let ?l = "\<lparr>wh_id = 21, wh_name = str ''Locker 21'', city = str ''TASHKENT ''\<rparr>"
  have spaces: "list_all isWhiteSpace (str ''  '')" "list_all isWhiteSpace (str '' '')"
    "list_all isWhiteSpace []"
    by (simp_all add: str_def isWhiteSpace_def)
  have cores: "trim (str ''Tashkent'') = str ''Tashkent''"
    "trim (str ''TASHKENT'') = str ''TASHKENT''"
    "trim (str ''tashkent'') = str ''tashkent''"
    by (simp_all add: trim_def str_def isWhiteSpace_def)
  have w: "?w \<in> set (warehouses padded_hook)"
    "city ?w = str '' '' @ str ''Tashkent'' @ []"
    by (simp_all add: padded_hook_def str_def)
  have l: "?l \<in> set (lockers padded_hook)"
    "city ?l = [] @ str ''TASHKENT'' @ str '' ''"
    by (simp_all add: padded_hook_def str_def)
  have q: "str ''  tashkent '' = str ''  '' @ str ''tashkent'' @ str '' ''"
    "str ''  tashkent '' \<noteq> []"
    by (simp_all add: str_def)
  have lower: "asciiLowerCase (str ''tashkent'') = asciiLowerCase (str ''Tashkent'')"
    "asciiLowerCase (str ''tashkent'') = asciiLowerCase (str ''TASHKENT'')"
    by (simp_all add: asciiLowerCase_def str_def)
  have lists: "str ''  tashkent '' \<notin> city ` set (warehouses padded_hook)"
    "str ''  tashkent '' \<notin> city ` set (lockers padded_hook)"
    "str '' Tashkent'' \<noteq> []"
    "str '' Tashkent'' \<in> city ` set (warehouses padded_hook)"
    by (simp_all add: padded_hook_def str_def)
  note t = hasWarehouse_case_and_padding [where toLowerCase = asciiLowerCase
      and h = padded_hook and w = ?w and l = ?l and cityName = "str ''  tashkent ''"
      and pre = "str ''  ''" and m = "str ''tashkent''" and post = "str '' ''"
      and ?pre\<^sub>w = "str '' ''" and ?m\<^sub>w = "str ''Tashkent''" and ?post\<^sub>w = "[]"
      and ?pre\<^sub>l = "[]" and ?m\<^sub>l = "str ''TASHKENT''" and ?post\<^sub>l = "str '' ''"
      and g = padded_hook]
  from t [where query = "str ''  tashkent ''"] spaces cores w l q lower lists
  have "hasWarehouse_trim asciiLowerCase padded_hook (Some (str ''  tashkent ''))"
    "hasLocker_trim asciiLowerCase padded_hook (Some (str ''  tashkent ''))"
    "hasWarehouse padded_hook (Some (str ''  tashkent '')) = False"
    "hasLocker padded_hook (Some (str ''  tashkent '')) = False"
    by blast+
  moreover from t [where query = "str '' Tashkent''"] lists
  have "hasWarehouse padded_hook (Some (str '' Tashkent'')) = True"
    by blast
  ultimately show ?thesis
    by blast
qed

text \<open>
  The claim as stated fails on the exact-match hook: the list holds an office in
  \<open>Tashkent\<close>, and neither \<open>tashkent\<close> nor \<open>Tashkent\<close> followed by a space is found.
  It fails on the trimming version for the empty query: a list holds an office whose
  city is the empty string and one whose city is a single space, and the empty query
  (the first name itself, the second without its space) is not found, whatever
  \<open>toLowerCase\<close> does.
\<close>

theorem hasWarehouse_exact_match_counterexample:
  "office_tashkent \<in> set (warehouses example_hook)
   \<and> city office_tashkent = str ''Tashkent''
   \<and> \<not> hasWarehouse example_hook (Some (str ''tashkent''))
   \<and> \<not> hasWarehouse example_hook (Some (str ''Tashkent ''))
   \<and> [] \<in> city ` set (warehouses blank_hook)
   \<and> str '' '' \<in> city ` set (warehouses blank_hook)
   \<and> (\<forall>toLowerCase. \<not> hasWarehouse_trim toLowerCase blank_hook (Some []))"
  by (simp add: hasWarehouse_def hasWarehouse_trim_def example_hook_def office_tashkent_def
      blank_hook_def str_def)

section \<open>Loading\<close>

lemma fetchDataWith_warehouses_not_ok:
  "fetchDataWith e initialHook (Resolved (Response False b))
     (Resolved (Response True (Some (BodyList ls)))) = initialHook\<lparr>lockers := ls\<rparr>"
  by (simp add: fetchDataWith_def readWarehouses_def readLockers_def initialHook_def)

lemma fetchDataWith_lockers_not_ok:
  "fetchDataWith e initialHook (Resolved (Response True (Some (BodyList ws))))
     (Resolved (Response False b)) = initialHook\<lparr>warehouses := ws\<rparr>"
  by (simp add: fetchDataWith_def readWarehouses_def readLockers_def initialHook_def)

lemma fetchDataWith_rejected:
  "fetchDataWith e initialHook Rejected lfetch = initialHook\<lparr>error := Some e\<rparr>"
  "fetchDataWith e initialHook wfetch Rejected = initialHook\<lparr>error := Some e\<rparr>"
  by (cases wfetch; simp add: fetchDataWith_def initialHook_def)+

lemma has_initial:
  "hasWarehouse (initialHook\<lparr>lockers := ls\<rparr>) n = False"
  "hasLocker (initialHook\<lparr>lockers := ls\<rparr>) n = (\<not> falsy n \<and> some (\<lambda>l. Some (city l) = n) ls)"
  "hasLocker (initialHook\<lparr>warehouses := ws\<rparr>) n = False"
  "hasWarehouse (initialHook\<lparr>warehouses := ws\<rparr>) n = (\<not> falsy n \<and> some (\<lambda>w. Some (city w) = n) ws)"
  "hasWarehouse (initialHook\<lparr>error := e\<rparr>) n = False"
  "hasLocker (initialHook\<lparr>error := e\<rparr>) n = False"
  by (simp_all add: hasWarehouse_def hasLocker_def initialHook_def)

text \<open>
  C5 (amended). \<open>fetchData\<close> (in \<open>client/hooks/useWarehouseCheck.ts\<close> and in
  \<open>unnamed/part_000\<close>), run on the initial state: when the warehouses request comes back
  with a status that is not ok and the lockers request succeeds, the lockers are
  loaded, \<open>hasLocker\<close> answers from the fetched list and \<open>hasWarehouse\<close> is false for
  every name; and the same with the two lists exchanged. When one of the two fetches is
  rejected (it throws), the single \<open>try\<close> block is left before either list is set: that
  list stays empty and the error is recorded.
\<close>

theorem fetchData_partial_success:
  fixes fd :: "hook \<Rightarrow> fetch_result \<Rightarrow> fetch_result \<Rightarrow> hook"
  assumes "fd = fetchData \<or> fd = fetchData_p0"
  shows
   "lockers (fd initialHook (Resolved (Response False b))
       (Resolved (Response True (Some (BodyList ls))))) = ls
    \<and> hasLocker (fd initialHook (Resolved (Response False b))
         (Resolved (Response True (Some (BodyList ls))))) n
       = (\<not> falsy n \<and> some (\<lambda>l. Some (city l) = n) ls)
    \<and> \<not> hasWarehouse (fd initialHook (Resolved (Response False b))
         (Resolved (Response True (Some (BodyList ls))))) n
    \<and> warehouses (fd initialHook (Resolved (Response True (Some (BodyList ws))))
         (Resolved (Response False b))) = ws
    \<and> hasWarehouse (fd initialHook (Resolved (Response True (Some (BodyList ws))))
         (Resolved (Response False b))) n
       = (\<not> falsy n \<and> some (\<lambda>w. Some (city w) = n) ws)
    \<and> \<not> hasLocker (fd initialHook (Resolved (Response True (Some (BodyList ws))))
         (Resolved (Response False b))) n
    \<and> lockers (fd initialHook Rejected lockersFetch) = []
    \<and> warehouses (fd initialHook warehousesFetch Rejected) = []
    \<and> error (fd initialHook Rejected lockersFetch) \<noteq> None
    \<and> error (fd initialHook warehousesFetch Rejected) \<noteq> None"
  using assms
  by (auto simp: fetchData_def fetchData_p0_def fetchDataWith_warehouses_not_ok
      fetchDataWith_lockers_not_ok fetchDataWith_rejected has_initial)
    (simp_all add: initialHook_def)


theorem fetchData_partial_success_witness:
  "hasLocker (fetchData initialHook (Resolved (Response False None))
       (Resolved (Response True (Some (BodyList [locker_samarkand])))))
     (Some (str ''Samarkand''))
   \<and> \<not> hasWarehouse (fetchData initialHook (Resolved (Response False None))
       (Resolved (Response True (Some (BodyList [locker_samarkand])))))
     (Some (str ''Tashkent''))
   \<and> hasWarehouse (fetchData_p0 initialHook
       (Resolved (Response True (Some (BodyList [office_tashkent]))))
       (Resolved (Response False None)))
     (Some (str ''Tashkent''))"
proof -
  have "fetchData = fetchData \<or> fetchData = fetchData_p0"
    "fetchData_p0 = fetchData \<or> fetchData_p0 = fetchData_p0"
    by simp_all
  from fetchData_partial_success [OF this(1), of None "[locker_samarkand]"]
    fetchData_partial_success [OF this(2), where b = None and ws = "[office_tashkent]"]
  show ?thesis
    by (simp add: locker_samarkand_def office_tashkent_def str_def)
qed

text \<open>
  The claim as stated fails when the failure is a rejected fetch: the lockers request
  would succeed, yet no locker is loaded and \<open>hasLocker\<close> is false for the city of the
  locker.
\<close>

theorem fetchData_rejected_counterexample:
  "lockers (fetchData initialHook Rejected
       (Resolved (Response True (Some (BodyList [locker_samarkand]))))) = []
   \<and> \<not> hasLocker (fetchData initialHook Rejected
       (Resolved (Response True (Some (BodyList [locker_samarkand])))))
     (Some (city locker_samarkand))"
  by (simp add: fetchData_def fetchDataWith_rejected has_initial) (simp add: initialHook_def)

section \<open>The normalised match on the example data\<close>

lemmas js_eval = str_def isWhiteSpace_def asciiLowerCase_def keptByClass_def citySuffixes_def
  matchesIgnoringCase_def trim_def normalizeCityName_def matchesNormalized_def Let_def

lemma example_normalized:
  "normalizeCityName asciiLowerCase (str ''Samarkand'') = str ''samarkand''"
  "normalizeCityName asciiLowerCase (str ''Tashkent'') = str ''tashkent''"
  by (simp_all add: js_eval)

lemma example_matches:
  "\<not> matchesNormalized (str ''samarkand'') (str ''tashkent'')"
  "\<not> matchesNormalized (str ''tashkent'') (str ''samarkand'')"
  "matchesNormalized (str ''samarkand'') (str ''samarkand'')"
  "matchesNormalized (str ''tashkent'') (str ''tashkent'')"
  by (simp_all add: js_eval)

lemma example_has_norm:
  "hasWarehouse_norm asciiLowerCase example_hook (Some (str ''Tashkent''))"
  "\<not> hasWarehouse_norm asciiLowerCase example_hook (Some (str ''Samarkand''))"
  "\<not> hasLocker_norm asciiLowerCase example_hook (Some (str ''Tashkent''))"
  "hasLocker_norm asciiLowerCase example_hook (Some (str ''Samarkand''))"
  by (simp_all add: hasWarehouse_norm_def hasLocker_norm_def example_hook_def
      office_tashkent_def locker_samarkand_def example_normalized example_matches str_eq_Nil)

section \<open>Exceptions of \<open>hasWarehouse\<close> and \<open>hasLocker\<close>\<close>












section \<open>The warning for \<open>OFFICE_OFFICE\<close>\<close>

lemma shouldShowWarehouseWarning_office_office:
  assumes "\<not> loading h"
  shows "shouldShowWarehouseWarning cities h origin destination (Some OFFICE_OFFICE) =
      (let originCityName = getCityNameById cities (idOrNull origin);
           destinationCityName = getCityNameById cities (idOrNull destination)
       in if \<not> hasWarehouse h originCityName \<and> \<not> hasWarehouse h destinationCityName then
            \<lparr>show_warning = True, message = T noWarehouses\<rparr>
          else if \<not> hasWarehouse h originCityName then
            \<lparr>show_warning = True,
             message = FormatMessage noOriginWarehouse [(''city'', Some (orEmpty originCityName))]\<rparr>
          else if \<not> hasWarehouse h destinationCityName then
            \<lparr>show_warning = True,
             message = FormatMessage noDestinationWarehouse
               [(''city'', Some (orEmpty destinationCityName))]\<rparr>
          else \<lparr>show_warning = False, message = Empty\<rparr>)"
  using assms by (simp add: shouldShowWarehouseWarning_def warningFor_def Let_def)

lemma shouldShowWarehouseWarning_norm_office_office:
  assumes "\<not> loading h"
  shows "shouldShowWarehouseWarning_norm toLowerCase h origin destination (Some OFFICE_OFFICE) =
      (let originCityName = getDisplayName_any origin;
           destinationCityName = getDisplayName_any destination
       in if \<not> hasWarehouse_norm toLowerCase h originCityName \<and> \<not> hasWarehouse_norm toLowerCase h destinationCityName then
            \<lparr>show_warning = True, message = T noWarehouses\<rparr>
          else if \<not> hasWarehouse_norm toLowerCase h originCityName then
            \<lparr>show_warning = True,
             message = FormatMessage noOriginWarehouse [(''city'', Some (orEmpty originCityName))]\<rparr>
          else if \<not> hasWarehouse_norm toLowerCase h destinationCityName then
            \<lparr>show_warning = True,
             message = FormatMessage noDestinationWarehouse
               [(''city'', Some (orEmpty destinationCityName))]\<rparr>
          else \<lparr>show_warning = False, message = Empty\<rparr>)"
  using assms by (simp add: shouldShowWarehouseWarning_norm_def Let_def)

text \<open>
  C6. For \<open>OFFICE_OFFICE\<close> and a hook that is not loading, in the exact-match hook and
  in the normalising version of \<open>unnamed/part_001\<close>: when neither the origin nor the
  destination has a warehouse, \<open>shouldShowWarehouseWarning\<close> returns the combined
  message \<open>t.noWarehouses\<close>, which is not a message formatted for one city; when only
  the origin has none, it returns the message \<open>noOriginWarehouse\<close> for the origin; when
  only the destination has none, the message \<open>noDestinationWarehouse\<close> for the
  destination. The origin is tested first.
\<close>

theorem office_office_warning:
  assumes "\<not> loading h"
    and "oName = getCityNameById cities (idOrNull origin)"
    and "dName = getCityNameById cities (idOrNull destination)"
    and "oName' = getDisplayName_any origin'"
    and "dName' = getDisplayName_any destination'"
    and "w = shouldShowWarehouseWarning cities h origin destination (Some OFFICE_OFFICE)"
    and "w' = shouldShowWarehouseWarning_norm toLowerCase h origin' destination' (Some OFFICE_OFFICE)"
  shows
   "(\<not> hasWarehouse h oName \<and> \<not> hasWarehouse h dName \<longrightarrow>
       w = \<lparr>show_warning = True, message = T noWarehouses\<rparr>
       \<and> message w \<noteq> FormatMessage key params)
    \<and> (\<not> hasWarehouse h oName \<and> hasWarehouse h dName \<longrightarrow>
       w = \<lparr>show_warning = True,
            message = FormatMessage noOriginWarehouse [(''city'', Some (orEmpty oName))]\<rparr>)
    \<and> (hasWarehouse h oName \<and> \<not> hasWarehouse h dName \<longrightarrow>
       w = \<lparr>show_warning = True,
            message = FormatMessage noDestinationWarehouse [(''city'', Some (orEmpty dName))]\<rparr>)
    \<and> (\<not> hasWarehouse_norm toLowerCase h oName' \<and> \<not> hasWarehouse_norm toLowerCase h dName' \<longrightarrow>
       w' = \<lparr>show_warning = True, message = T noWarehouses\<rparr>
       \<and> message w' \<noteq> FormatMessage key params)
    \<and> (\<not> hasWarehouse_norm toLowerCase h oName' \<and> hasWarehouse_norm toLowerCase h dName' \<longrightarrow>
       w' = \<lparr>show_warning = True,
             message = FormatMessage noOriginWarehouse [(''city'', Some (orEmpty oName'))]\<rparr>)
    \<and> (hasWarehouse_norm toLowerCase h oName' \<and> \<not> hasWarehouse_norm toLowerCase h dName' \<longrightarrow>
       w' = \<lparr>show_warning = True,
             message = FormatMessage noDestinationWarehouse [(''city'', Some (orEmpty dName'))]\<rparr>)"
  unfolding assms(2-7)
  by (simp add: shouldShowWarehouseWarning_office_office [OF assms(1)]
      shouldShowWarehouseWarning_norm_office_office [OF assms(1)] Let_def)

theorem office_office_warning_witness:
  "shouldShowWarehouseWarning example_cities example_hook (Some samarkand) (Some samarkand)
     (Some OFFICE_OFFICE) = \<lparr>show_warning = True, message = T noWarehouses\<rparr>
   \<and> shouldShowWarehouseWarning_norm asciiLowerCase example_hook (Some (Plain samarkand))
       (Some (Region region_samarkand)) (Some OFFICE_OFFICE)
     = \<lparr>show_warning = True, message = T noWarehouses\<rparr>
   \<and> shouldShowWarehouseWarning example_cities example_hook (Some samarkand) (Some tashkent)
       (Some OFFICE_OFFICE)
     = \<lparr>show_warning = True,
        message = FormatMessage noOriginWarehouse [(''city'', Some (str ''Samarkand''))]\<rparr>
   \<and> shouldShowWarehouseWarning_norm asciiLowerCase example_hook (Some (Plain tashkent))
       (Some (Region region_samarkand)) (Some OFFICE_OFFICE)
     = \<lparr>show_warning = True,
        message = FormatMessage noDestinationWarehouse [(''city'', Some (str ''Samarkand''))]\<rparr>"
proof -
  have l: "\<not> loading example_hook"
    by (simp add: example_hook_def)
  have n: "getCityNameById example_cities (idOrNull (Some samarkand)) = Some (str ''Samarkand'')"
    "getCityNameById example_cities (idOrNull (Some tashkent)) = Some (str ''Tashkent'')"
    by (simp_all add: getCityNameById_idOrNull example_ids example_names)
  have n': "getDisplayName_any (Some (Plain samarkand)) = Some (str ''Samarkand'')"
    "getDisplayName_any (Some (Plain tashkent)) = Some (str ''Tashkent'')"
    "getDisplayName_any (Some (Region region_samarkand)) = Some (str ''Samarkand'')"
    by (simp_all add: samarkand_def tashkent_def region_samarkand_def str_eq_Nil)
  have has: "\<not> hasWarehouse example_hook
        (getCityNameById example_cities (idOrNull (Some samarkand)))"
    "hasWarehouse example_hook (getCityNameById example_cities (idOrNull (Some tashkent)))"
    "\<not> hasWarehouse_norm asciiLowerCase example_hook (getDisplayName_any (Some (Plain samarkand)))"
    "hasWarehouse_norm asciiLowerCase example_hook (getDisplayName_any (Some (Plain tashkent)))"
    "\<not> hasWarehouse_norm asciiLowerCase example_hook (getDisplayName_any (Some (Region region_samarkand)))"
    unfolding n n' by (simp_all add: example_has example_has_norm)
  note both = office_office_warning [OF l refl refl refl refl refl refl,
      where toLowerCase = asciiLowerCase and cities = example_cities and origin = "Some samarkand"
        and destination = "Some samarkand" and origin' = "Some (Plain samarkand)"
        and destination' = "Some (Region region_samarkand)"
        and key = noOriginWarehouse and params = "[]"]
  note one = office_office_warning [OF l refl refl refl refl refl refl,
      where toLowerCase = asciiLowerCase and cities = example_cities and origin = "Some samarkand"
        and destination = "Some tashkent" and origin' = "Some (Plain tashkent)"
        and destination' = "Some (Region region_samarkand)"
        and key = noOriginWarehouse and params = "[]"]
  from both has have
    "shouldShowWarehouseWarning example_cities example_hook (Some samarkand) (Some samarkand)
       (Some OFFICE_OFFICE) = \<lparr>show_warning = True, message = T noWarehouses\<rparr>"
    "shouldShowWarehouseWarning_norm asciiLowerCase example_hook (Some (Plain samarkand))
       (Some (Region region_samarkand)) (Some OFFICE_OFFICE)
     = \<lparr>show_warning = True, message = T noWarehouses\<rparr>"
    by blast+
  moreover from one has have
    "shouldShowWarehouseWarning example_cities example_hook (Some samarkand) (Some tashkent)
       (Some OFFICE_OFFICE)
     = \<lparr>show_warning = True,
        message = FormatMessage noOriginWarehouse
          [(''city'', Some (orEmpty (getCityNameById example_cities
             (idOrNull (Some samarkand)))))]\<rparr>"
    "shouldShowWarehouseWarning_norm asciiLowerCase example_hook (Some (Plain tashkent))
       (Some (Region region_samarkand)) (Some OFFICE_OFFICE)
     = \<lparr>show_warning = True,
        message = FormatMessage noDestinationWarehouse
          [(''city'', Some (orEmpty (getDisplayName_any (Some (Region region_samarkand)))))]\<rparr>"
    by blast+
  ultimately show ?thesis
    unfolding n n' by simp
qed

section \<open>The weight\<close>

lemma bitlen_numeral: "bitlen (numeral k) = bitlen (numeral k div 2) + 1"
  by (subst compute_bitlen) simp

lemma bitlen_one: "bitlen 1 = 1"
  by (subst compute_bitlen) simp

lemma floorLog2_5: "floorLog2 5 = 2"
  by (simp add: floorLog2_def pow2_def Let_def bitlen_numeral bitlen_one)

lemma numberValue_5: "numberValue 5 = Finite 5"
  by (simp add: numberValue_def floorLog2_5 pow2_def roundHalfEven_def Let_def)

lemma parseFloat_Nil: "parseFloat [] = NaN"
  by (simp add: parseFloat_def)

lemma isDigit_not_space: "isDigit d \<Longrightarrow> \<not> isWhiteSpace d"
  by (auto simp: isDigit_def isWhiteSpace_def)

lemma parseFloat_digits_head:
  assumes "isDigit d"
  shows "parseFloat (d # s) = (case unsignedLiteral (d # s) of None \<Rightarrow> NaN | Some q \<Rightarrow> numberValue q)"
proof -
  from assms have "d \<noteq> 43" "d \<noteq> 45" "d \<noteq> 73"
    by (auto simp: isDigit_def)
  moreover have "str ''Infinity'' = 73 # str ''nfinity''"
    by (simp add: str_def)
  ultimately show ?thesis
    using assms by (simp add: parseFloat_def unsignedNumber_def isDigit_not_space)
qed

lemma unsignedLiteral_digits:
  assumes "ds \<noteq> []" and "list_all isDigit ds"
  shows "unsignedLiteral ds = Some (of_nat (digitsValue ds))"
proof -
  from assms(2) have t: "takeWhile isDigit ds = ds" "dropWhile isDigit ds = []"
    by (simp_all add: list_all_iff)
  from assms(1) show ?thesis
    by (simp add: unsignedLiteral_def t Let_def)
qed

lemma unsignedLiteral_digits_then:
  assumes "ds \<noteq> []" and "list_all isDigit ds"
    and "\<not> isDigit g" and "g \<noteq> 46" and "g \<noteq> 101" and "g \<noteq> 69"
  shows "unsignedLiteral (ds @ g # rest) = Some (of_nat (digitsValue ds))"
proof -
  from assms(2,3) have t: "takeWhile isDigit (ds @ g # rest) = ds"
    "dropWhile isDigit (ds @ g # rest) = g # rest"
    by (simp_all add: list_all_iff takeWhile_append2 dropWhile_append2)
  from assms(5,6) have e: "exponentPart (g # rest) = 0"
    by (simp add: exponentPart_def)
  from assms(1,4) show ?thesis
    by (simp add: unsignedLiteral_def pow10_def t e Let_def)
qed

lemma parseFloat_ignores_rest:
  assumes "ds \<noteq> []" and "list_all isDigit ds"
    and "\<not> isDigit g" and "g \<noteq> 46" and "g \<noteq> 101" and "g \<noteq> 69"
  shows "parseFloat (ds @ g # rest) = parseFloat ds"
proof -
  from assms(1,2) obtain d ds' where ds: "ds = d # ds'" and d: "isDigit d"
    by (cases ds) simp_all
  have "parseFloat (ds @ g # rest) = numberValue (of_nat (digitsValue ds))"
    using parseFloat_digits_head [OF d, of "ds' @ g # rest"] unsignedLiteral_digits_then [OF assms]
    by (simp add: ds)
  moreover have "parseFloat ds = numberValue (of_nat (digitsValue ds))"
    using parseFloat_digits_head [OF d, of ds'] unsignedLiteral_digits [OF assms(1,2)]
    by (simp add: ds)
  ultimately show ?thesis by simp
qed

text \<open>
  C10. With origin, destination and tariff type selected, \<open>isFormValid\<close> accepts every
  weight string that \<open>parseFloat\<close> reads as a finite number above zero, and \<open>parseFloat\<close>
  reads the numeric prefix only: digits followed by any text that starts with a
  character other than a digit, a point or the letter \<open>e\<close> are read as the digits alone
  (\<open>5abc\<close> as 5). \<open>calculateTariff\<close> then takes neither of its two validation exits, and
  with both cities found among the cities of the API it sends the request with the
  parsed prefix as the weight.
\<close>

theorem weight_with_trailing_text_accepted:
  assumes "originCity (form c) \<noteq> None" and "destinationCity (form c) \<noteq> None"
    and "tariffType (form c) \<noteq> None"
    and "parseFloat (weight (form c)) = Finite q" and "0 < q"
  shows "isFormValid c
    \<and> calc_error (fst (calculateTariff c st respond)) \<noteq> Some (T fillAllFields)
    \<and> calc_error (fst (calculateTariff c st respond)) \<noteq> Some (T correctWeight)
    \<and> (convertedOriginCity c = Some originApiCity \<and> convertedDestinationCity c = Some destinationApiCity
        \<longrightarrow> snd (calculateTariff c st respond)
            = Some \<lparr>from_latitude = center_latitude originApiCity,
                    from_longitude = center_longitude originApiCity,
                    to_latitude = center_latitude destinationApiCity,
                    to_longitude = center_longitude destinationApiCity,
                    body_weight = Finite q,
                    tariff_type = tariffType (form c)\<rparr>)
    \<and> (ds \<noteq> [] \<and> list_all isDigit ds \<and> \<not> isDigit g \<and> g \<noteq> 46 \<and> g \<noteq> 101 \<and> g \<noteq> 69
        \<longrightarrow> parseFloat (ds @ g # rest) = parseFloat ds)"
proof -
  from assms(4) have w: "weight (form c) \<noteq> []"
    by (auto simp: parseFloat_Nil)
  with assms have v: "isFormValid c"
    by (simp add: isFormValid_def)
  have e: "calc_error (fst (calculateTariff c st respond)) \<noteq> Some (T fillAllFields)
    \<and> calc_error (fst (calculateTariff c st respond)) \<noteq> Some (T correctWeight)"
    using v assms(4,5)
    by (simp add: calculateTariff_def Let_def split: option.split tariffResponse.split)
  have s: "convertedOriginCity c = Some originApiCity \<and> convertedDestinationCity c = Some destinationApiCity
        \<longrightarrow> snd (calculateTariff c st respond)
            = Some \<lparr>from_latitude = center_latitude originApiCity,
                    from_longitude = center_longitude originApiCity,
                    to_latitude = center_latitude destinationApiCity,
                    to_longitude = center_longitude destinationApiCity,
                    body_weight = Finite q,
                    tariff_type = tariffType (form c)\<rparr>"
    using v assms(4,5)
    by (simp add: calculateTariff_def Let_def split: option.split tariffResponse.split)
  from v e s show ?thesis
    by (simp add: parseFloat_ignores_rest)
qed


theorem weight_with_trailing_text_accepted_witness:
  "parseFloat (str ''5abc'') = Finite 5
   \<and> isFormValid
       (example_calculator (Some region_tashkent) (Some region_samarkand) OFFICE_DOOR (str ''5abc''))
   \<and> snd (calculateTariff
         (example_calculator (Some region_tashkent) (Some region_samarkand) OFFICE_DOOR (str ''5abc''))
         initialRequestState serverError)
     = Some \<lparr>from_latitude = Some (413 / 10), from_longitude = Some (693 / 10),
             to_latitude = Some (397 / 10), to_longitude = Some 67,
             body_weight = Finite 5, tariff_type = Some OFFICE_DOOR\<rparr>"
proof -
  let ?c = "example_calculator (Some region_tashkent) (Some region_samarkand) OFFICE_DOOR (str ''5abc'')"
  have f: "originCity (form ?c) \<noteq> None" "destinationCity (form ?c) \<noteq> None"
    "tariffType (form ?c) \<noteq> None"
    by (simp_all add: example_calculator_def)
  have p: "parseFloat (str ''5abc'') = Finite 5"
    by (simp add: parseFloat_def unsignedNumber_def unsignedLiteral_def str_def isWhiteSpace_def
        isDigit_def digitsValue_def exponentPart_def pow10_def Let_def numberValue_5)
  then have w: "parseFloat (weight (form ?c)) = Finite 5"
    by (simp add: example_calculator_def)
  have q: "(0::rat) < 5"
    by simp
  note t = weight_with_trailing_text_accepted [OF f w q,
      where st = initialRequestState and respond = serverError
        and originApiCity = tashkent and destinationApiCity = samarkand
        and ds = "str ''5''" and g = 97 and rest = "str ''bc''"]
  from t have v: "isFormValid ?c"
    by simp
  from t have "snd (calculateTariff ?c initialRequestState serverError)
     = Some \<lparr>from_latitude = center_latitude tashkent,
             from_longitude = center_longitude tashkent,
             to_latitude = center_latitude samarkand,
             to_longitude = center_longitude samarkand,
             body_weight = Finite 5, tariff_type = tariffType (form ?c)\<rparr>"
    by (simp add: example_converted)
  then have "snd (calculateTariff ?c initialRequestState serverError)
     = Some \<lparr>from_latitude = Some (413 / 10), from_longitude = Some (693 / 10),
             to_latitude = Some (397 / 10), to_longitude = Some 67,
             body_weight = Finite 5, tariff_type = Some OFFICE_DOOR\<rparr>"
    by (simp add: tashkent_def samarkand_def example_calculator_def)
  with p v show ?thesis
    by simp
qed

end
